theory Spec2Isabelle
  imports
    Main
    "HOL-Library.Word"
    "HOL-Library.Char_ord"
    "HOL-Library.List_Lexorder"
    "HOL-Library.Multiset"
    "HOL-Library.Sublist"
begin

section \<open>gwork: Drive audit, shallow embedding\<close>

text \<open>
  The Go packages \<open>internal/drive\<close>, \<open>internal/audit\<close>, \<open>internal/reporter\<close>,
  \<open>pkg/exitcode\<close> and the command \<open>main\<close> are embedded as HOL functions.

  \<^item> A Go \<open>string\<close> is a byte sequence: \<^typ>\<open>string\<close> (a \<^typ>\<open>char\<close> is one byte); \<open><\<close> on
    strings is the byte-wise lexicographic order, as Go's.
  \<^item> A Go slice is a list; the \<open>nil\<close> slice and the empty slice are both \<open>[]\<close>.
  \<^item> A Go \<open>error\<close> result is an \<^typ>\<open>'a option\<close> (\<open>None\<close> is \<open>nil\<close>); a function returning
    \<open>(value, error)\<close> returns a pair, since the code returns both at once on cancellation.
  \<^item> The remote API and the \<open>context.Context\<close> are collaborators: each call and each
    look at \<open>ctx.Done()\<close> is a transition of an explicit world state \<open>'w\<close>.
  \<^item> A \<open>for\<close> loop without a bound is a \<^theory_text>\<open>partial_function\<close> into \<open>option\<close>:
    \<open>None\<close> is a run that never returns.
\<close>

subsection \<open>Errors and contexts\<close>

datatype error =
    Canceled                \<comment> \<open>\<open>context.Canceled\<close>\<close>
  | DeadlineExceeded        \<comment> \<open>\<open>context.DeadlineExceeded\<close>\<close>
  | ErrorNew string         \<comment> \<open>\<open>errors.New(msg)\<close>, or a collaborator's error with that message\<close>
  | Errorf string error     \<comment> \<open>\<open>fmt.Errorf(msg + "%w", cause)\<close>\<close>

text \<open>The message of an error (\<open>err.Error()\<close>) and the wrapped cause (\<open>errors.Unwrap\<close>).\<close>

fun Error :: "error \<Rightarrow> string" where
  "Error Canceled = ''context canceled''"
| "Error DeadlineExceeded = ''context deadline exceeded''"
| "Error (ErrorNew msg) = msg"
| "Error (Errorf msg cause) = msg @ Error cause"

fun Unwrap :: "error \<Rightarrow> error option" where
  "Unwrap (Errorf msg cause) = Some cause"
| "Unwrap e = None"

text \<open>
  The statement \<open>select { case <-ctx.Done(): return x, ctx.Err(); default: }\<close> looks at
  the context once: \<open>Some e\<close> when the channel is closed, \<open>e\<close> being \<open>ctx.Err()\<close>, which is
  not \<open>nil\<close> then. The look is a transition of the world, so that a context may be
  cancelled between any two looks.
\<close>

type_synonym 'w Context = "'w \<Rightarrow> error option \<times> 'w"

subsection \<open>Package drive: the API boundary (interfaces.go)\<close>

text \<open>
  \<open>drive.User\<close>, \<open>drive.File\<close> and \<open>drive.Permission\<close> of the Google client library, with
  the fields the code reads. A call returns an error or a result, never both \<open>nil\<close>, and
  the entries of a result page are taken to be non-nil.
\<close>

record api_User =
  EmailAddress :: string

record api_File =
  Id :: string
  Name :: string
  MimeType :: string
  Owners :: "api_User list"
  CreatedTime :: string
  ModifiedTime :: string
  Size :: "64 word"

record api_Permission =
  Id :: string
  Type :: string
  Role :: string
  EmailAddress :: string
  Domain :: string
  DisplayName :: string

record ListFilesOptions =
  Corpora :: string
  PageSize :: "64 word"
  PageToken :: string
  Fields :: string
  SupportsAllDrives :: bool
  IncludeItemsFromAllDrives :: bool

record ListFilesResult =
  Files :: "api_File list"
  NextPageToken :: string

record ListPermissionsOptions =
  Fields :: string
  PageToken :: string
  SupportsAllDrives :: bool

record ListPermissionsResult =
  Permissions :: "api_Permission list"
  NextPageToken :: string

text \<open>The interface \<open>DriveAPI\<close>: any implementation, the real one or a test double.\<close>

record 'w DriveAPI =
  ListFiles :: "'w Context \<Rightarrow> ListFilesOptions \<Rightarrow> 'w \<Rightarrow> (error + ListFilesResult) \<times> 'w"
  ListPermissions ::
    "'w Context \<Rightarrow> string \<Rightarrow> ListPermissionsOptions \<Rightarrow> 'w \<Rightarrow> (error + ListPermissionsResult) \<times> 'w"

subsection \<open>Package drive: types.go, client.go\<close>

record FileInfo =
  ID :: string
  Name :: string
  MimeType :: string
  OwnerEmail :: string
  CreatedTime :: string
  ModifiedTime :: string
  Size :: "64 word"

record Permission =
  ID :: string
  Type :: string
  Role :: string
  EmailAddress :: string
  Domain :: string
  DisplayName :: string

record 'w Client =
  api :: "'w DriveAPI"
  domain :: string
  pageSize :: "64 word"
  includeSharedDrives :: bool

definition NewClientWithAPI :: "'w DriveAPI \<Rightarrow> string \<Rightarrow> 64 word \<Rightarrow> bool \<Rightarrow> 'w Client" where
  "NewClientWithAPI a d ps isd =
     \<lparr>api = a, domain = d, pageSize = ps, includeSharedDrives = isd\<rparr>"

definition Client_Domain :: "'w Client \<Rightarrow> string" where
  "Client_Domain c = domain c"

subsection \<open>Package drive: files.go\<close>

text \<open>The inner loop \<open>for _, file := range result.Files { allFiles = append(allFiles, ...) }\<close>.\<close>

definition toFileInfo :: "api_File \<Rightarrow> FileInfo" where
  "toFileInfo file =
     (let ownerEmail = (case Owners file of [] \<Rightarrow> '''' | o1 # _ \<Rightarrow> api_User.EmailAddress o1)
      in \<lparr>FileInfo.ID = api_File.Id file,
          Name = api_File.Name file,
          MimeType = api_File.MimeType file,
          OwnerEmail = ownerEmail,
          CreatedTime = api_File.CreatedTime file,
          ModifiedTime = api_File.ModifiedTime file,
          Size = api_File.Size file\<rparr>)"

fun appendFiles :: "FileInfo list \<Rightarrow> api_File list \<Rightarrow> FileInfo list" where
  "appendFiles allFiles [] = allFiles"
| "appendFiles allFiles (file # rest) = appendFiles (allFiles @ [toFileInfo file]) rest"

definition listFilesOptions :: "'w Client \<Rightarrow> string \<Rightarrow> ListFilesOptions" where
  "listFilesOptions c pageToken =
     \<lparr>Corpora = ''domain'',
      PageSize = pageSize c,
      ListFilesOptions.PageToken = pageToken,
      ListFilesOptions.Fields =
        ''nextPageToken, files(id, name, mimeType, owners, createdTime, modifiedTime, size)'',
      ListFilesOptions.SupportsAllDrives = includeSharedDrives c,
      IncludeItemsFromAllDrives = includeSharedDrives c\<rparr>"

text \<open>
  The loop of \<open>ListAllFiles\<close>, with its variables \<open>pageToken\<close> and \<open>allFiles\<close> as
  arguments.
\<close>

partial_function (option) ListAllFiles_loop ::
  "'w Client \<Rightarrow> 'w Context \<Rightarrow> string \<Rightarrow> FileInfo list \<Rightarrow> 'w
     \<Rightarrow> ((FileInfo list \<times> error option) \<times> 'w) option"
where
  "ListAllFiles_loop c ctx pageToken allFiles w =
     (case ctx w of
        (Some e, w1) \<Rightarrow> Some ((allFiles, Some e), w1)
      | (None, w1) \<Rightarrow>
          (case ListFiles (api c) ctx (listFilesOptions c pageToken) w1 of
             (Inl err, w2) \<Rightarrow> Some (([], Some (Errorf ''failed to list files: '' err)), w2)
           | (Inr result, w2) \<Rightarrow>
               (let allFiles' = appendFiles allFiles (Files result);
                    pageToken' = ListFilesResult.NextPageToken result
                in if pageToken' = '''' then Some ((allFiles', None), w2)
                   else ListAllFiles_loop c ctx pageToken' allFiles' w2)))"

definition Client_ListAllFiles ::
  "'w Client \<Rightarrow> 'w Context \<Rightarrow> 'w \<Rightarrow> ((FileInfo list \<times> error option) \<times> 'w) option"
where
  "Client_ListAllFiles c ctx w = ListAllFiles_loop c ctx '''' [] w"

subsection \<open>Package drive: permissions.go\<close>

definition toPermission :: "api_Permission \<Rightarrow> Permission" where
  "toPermission perm =
     \<lparr>Permission.ID = api_Permission.Id perm,
      Type = api_Permission.Type perm,
      Role = api_Permission.Role perm,
      EmailAddress = api_Permission.EmailAddress perm,
      Domain = api_Permission.Domain perm,
      DisplayName = api_Permission.DisplayName perm\<rparr>"

fun appendPerms :: "Permission list \<Rightarrow> api_Permission list \<Rightarrow> Permission list" where
  "appendPerms allPerms [] = allPerms"
| "appendPerms allPerms (perm # rest) = appendPerms (allPerms @ [toPermission perm]) rest"

definition listPermissionsOptions :: "'w Client \<Rightarrow> string \<Rightarrow> ListPermissionsOptions" where
  "listPermissionsOptions c pageToken =
     \<lparr>ListPermissionsOptions.Fields =
        ''nextPageToken, permissions(id, type, role, emailAddress, domain, displayName)'',
      PageToken = pageToken,
      SupportsAllDrives = includeSharedDrives c\<rparr>"

partial_function (option) GetFilePermissions_loop ::
  "'w Client \<Rightarrow> 'w Context \<Rightarrow> string \<Rightarrow> string \<Rightarrow> Permission list \<Rightarrow> 'w
     \<Rightarrow> ((Permission list \<times> error option) \<times> 'w) option"
where
  "GetFilePermissions_loop c ctx fileID pageToken allPerms w =
     (case ctx w of
        (Some e, w1) \<Rightarrow> Some ((allPerms, Some e), w1)
      | (None, w1) \<Rightarrow>
          (case ListPermissions (api c) ctx fileID (listPermissionsOptions c pageToken) w1 of
             (Inl err, w2) \<Rightarrow>
               Some (([], Some (Errorf (''failed to list permissions for file '' @ fileID @ '': '') err)),
                     w2)
           | (Inr result, w2) \<Rightarrow>
               (let allPerms' = appendPerms allPerms (Permissions result);
                    pageToken' = ListPermissionsResult.NextPageToken result
                in if pageToken' = '''' then Some ((allPerms', None), w2)
                   else GetFilePermissions_loop c ctx fileID pageToken' allPerms' w2)))"

definition Client_GetFilePermissions ::
  "'w Client \<Rightarrow> 'w Context \<Rightarrow> string \<Rightarrow> 'w \<Rightarrow> ((Permission list \<times> error option) \<times> 'w) option"
where
  "Client_GetFilePermissions c ctx fileID w = GetFilePermissions_loop c ctx fileID '''' [] w"

text \<open>
  \<open>strings.LastIndex(s, substr)\<close> of the Go standard library: the index of the last
  instance of \<open>substr\<close> in \<open>s\<close>, or \<open>-1\<close>. The candidates are tried from the end of \<open>s\<close>
  down to index 0.
\<close>

fun LastIndex_upto :: "string \<Rightarrow> string \<Rightarrow> nat \<Rightarrow> int" where
  "LastIndex_upto s substr 0 = (if take (length substr) s = substr then 0 else - 1)"
| "LastIndex_upto s substr (Suc i) =
     (if take (length substr) (drop (Suc i) s) = substr then int (Suc i)
      else LastIndex_upto s substr i)"

definition LastIndex :: "string \<Rightarrow> string \<Rightarrow> int" where
  "LastIndex s substr = LastIndex_upto s substr (length s)"

text \<open>
  \<open>ExtractDomain\<close>. The slice \<open>email[idx+1:]\<close> is in range whenever it is evaluated
  (lemma \<open>ExtractDomain_slice_in_range\<close> below), so it never panics.
\<close>

definition ExtractDomain :: "string \<Rightarrow> string" where
  "ExtractDomain email =
     (let idx = LastIndex email ''@''
      in if idx < 0 then '''' else drop (nat (idx + 1)) email)"

definition Client_IsExternalShare :: "'w Client \<Rightarrow> Permission \<Rightarrow> bool" where
  "Client_IsExternalShare c perm =
     (if Permission.Type perm = ''anyone'' then True
      else if Permission.Type perm = ''domain'' then Permission.Domain perm \<noteq> domain c
      else if Permission.Type perm = ''user'' \<or> Permission.Type perm = ''group'' then
        (if Permission.EmailAddress perm = '''' then False
         else (let emailDomain = ExtractDomain (Permission.EmailAddress perm)
               in emailDomain \<noteq> domain c))
      else False)"

subsection \<open>Package audit: types.go, interfaces.go, auditor.go\<close>

text \<open>
  A \<open>time.Time\<close> is an instant, counted in nanoseconds from the zero instant (January 1,
  year 1, 00:00:00 UTC), which is the zero value of the type; \<open>t.IsZero()\<close> tests for it.
\<close>

type_synonym Time = int

definition IsZero :: "Time \<Rightarrow> bool" where
  "IsZero t = (t = 0)"

record FileRecord =
  OwnerEmail :: string
  FileID :: string
  FileName :: string
  FileType :: string
  CreatedTime :: Time
  ModifiedTime :: Time
  SizeBytes :: "64 word"

record ExternalShareRecord =
  OwnerEmail :: string
  FileID :: string
  FileName :: string
  SharedWithEmail :: string
  SharedWithDomain :: string
  PermissionType :: string
  PermissionRole :: string
  SharedDate :: Time

text \<open>The counters are Go \<open>int\<close>s that count elements of slices; they cannot wrap.\<close>

record AuditResult =
  TotalFiles :: nat
  TotalExternalShares :: nat
  FilesProcessed :: nat
  Errors :: "error list"
  FileRecords :: "FileRecord list"
  ExternalShares :: "ExternalShareRecord list"

text \<open>
  The interface \<open>DriveClient\<close> the auditor is written against. A method whose loop
  never ends returns \<open>None\<close>.
\<close>

record 'w DriveClient =
  ListAllFiles :: "'w Context \<Rightarrow> 'w \<Rightarrow> ((FileInfo list \<times> error option) \<times> 'w) option"
  GetFilePermissions ::
    "'w Context \<Rightarrow> string \<Rightarrow> 'w \<Rightarrow> ((Permission list \<times> error option) \<times> 'w) option"
  IsExternalShare :: "Permission \<Rightarrow> bool"
  Domain :: string

text \<open>\<open>drive.Client\<close> implements the interface (\<open>NewAuditor\<close> installs it).\<close>

definition Client_DriveClient :: "'w Client \<Rightarrow> 'w DriveClient" where
  "Client_DriveClient c =
     \<lparr>ListAllFiles = Client_ListAllFiles c,
      GetFilePermissions = Client_GetFilePermissions c,
      IsExternalShare = Client_IsExternalShare c,
      Domain = Client_Domain c\<rparr>"

text \<open>The \<open>Auditor\<close>; its \<open>config\<close> field is not read by the audit operations.\<close>

record 'w Auditor =
  driveClient :: "'w DriveClient"

definition NewAuditorWithClient :: "'w DriveClient \<Rightarrow> 'w Auditor" where
  "NewAuditorWithClient client = \<lparr>driveClient = client\<rparr>"

subsection \<open>Package audit: sharing.go\<close>

definition permissionToRecord :: "FileInfo \<Rightarrow> Permission \<Rightarrow> ExternalShareRecord" where
  "permissionToRecord file perm =
     (let sharedWithDomain = Permission.Domain perm;
          sharedWithDomain =
            (if sharedWithDomain = '''' \<and> Permission.EmailAddress perm \<noteq> ''''
             then ExtractDomain (Permission.EmailAddress perm) else sharedWithDomain)
      in \<lparr>ExternalShareRecord.OwnerEmail = FileInfo.OwnerEmail file,
          FileID = FileInfo.ID file,
          FileName = FileInfo.Name file,
          SharedWithEmail = Permission.EmailAddress perm,
          SharedWithDomain = sharedWithDomain,
          PermissionType = Permission.Type perm,
          PermissionRole = Permission.Role perm,
          SharedDate = 0\<rparr>)"

text \<open>The inner loop \<open>for _, perm := range perms\<close> of \<open>AuditExternalSharing\<close>.\<close>

fun auditPerms :: "'w Auditor \<Rightarrow> FileInfo \<Rightarrow> Permission list \<Rightarrow> AuditResult \<Rightarrow> AuditResult" where
  "auditPerms a file [] result = result"
| "auditPerms a file (perm # perms) result =
     auditPerms a file perms
       (if IsExternalShare (driveClient a) perm
        then result\<lparr>ExternalShares := ExternalShares result @ [permissionToRecord file perm]\<rparr>
        else result)"

text \<open>
  The loop \<open>for _, file := range files\<close>. It ends in \<open>(result, Some e)\<close> by the
  \<open>return result, ctx.Err()\<close> inside the loop, and in \<open>(result, None)\<close> by running out
  of files.
\<close>

fun AuditExternalSharing_loop ::
  "'w Auditor \<Rightarrow> 'w Context \<Rightarrow> FileInfo list \<Rightarrow> AuditResult \<Rightarrow> 'w
     \<Rightarrow> ((AuditResult \<times> error option) \<times> 'w) option"
where
  "AuditExternalSharing_loop a ctx [] result w = Some ((result, None), w)"
| "AuditExternalSharing_loop a ctx (file # files) result w =
     (case ctx w of
        (Some e, w1) \<Rightarrow> Some ((result, Some e), w1)
      | (None, w1) \<Rightarrow>
          (case GetFilePermissions (driveClient a) ctx (FileInfo.ID file) w1 of
             None \<Rightarrow> None
           | Some ((perms, Some err), w2) \<Rightarrow>
               AuditExternalSharing_loop a ctx files
                 (result\<lparr>Errors := Errors result
                            @ [Errorf (''file '' @ FileInfo.ID file @ '': '') err]\<rparr>) w2
           | Some ((perms, None), w2) \<Rightarrow>
               AuditExternalSharing_loop a ctx files
                 (auditPerms a file perms
                    (result\<lparr>FilesProcessed := FilesProcessed result + 1\<rparr>)) w2))"

definition AuditExternalSharing ::
  "'w Auditor \<Rightarrow> 'w Context \<Rightarrow> 'w \<Rightarrow> ((AuditResult option \<times> error option) \<times> 'w) option"
where
  "AuditExternalSharing a ctx w =
     (case ListAllFiles (driveClient a) ctx w of
        None \<Rightarrow> None
      | Some ((files, Some err), w1) \<Rightarrow>
          Some ((None, Some (Errorf ''failed to list files: '' err)), w1)
      | Some ((files, None), w1) \<Rightarrow>
          (case AuditExternalSharing_loop a ctx files
                  \<lparr>TotalFiles = length files, TotalExternalShares = 0, FilesProcessed = 0,
                   Errors = [], FileRecords = [], ExternalShares = []\<rparr> w1 of
             None \<Rightarrow> None
           | Some ((result, Some e), w2) \<Rightarrow> Some ((Some result, Some e), w2)
           | Some ((result, None), w2) \<Rightarrow>
               Some ((Some (result\<lparr>TotalExternalShares := length (ExternalShares result)\<rparr>),
                      None), w2)))"

subsection \<open>Package reporter: csv.go\<close>

text \<open>
  What the reporter takes from outside the repository, as parameters:
  \<^item> \<open>sort_Slice lt xs\<close> is \<open>sort.Slice(xs, lt)\<close>, with \<open>lt\<close> read on the elements at the
    two indices; the theorems assume of it only what its documentation promises;
  \<^item> \<open>Format t\<close> is \<open>t.Format("2006-01-02T15:04:05Z")\<close> and \<open>FormatInt n\<close> is
    \<open>strconv.FormatInt(n, 10)\<close>;
  \<^item> \<open>os_Create dir name\<close> is the error of \<open>os.Create(filepath.Join(dir, name))\<close>;
    \<open>writer_Write rows row\<close> the error of \<open>writer.Write(row)\<close> after the rows \<open>rows\<close>;
    \<open>writer_Flush rows\<close> the error of \<open>writer.Error()\<close> after \<open>writer.Flush()\<close>;
    \<open>file_Close rows\<close> the error of the deferred \<open>file.Close()\<close>.
  A write function returns its error and the rows the writer has accepted.
\<close>

record 'a ReportEnv =
  sort_Slice :: "('a \<Rightarrow> 'a \<Rightarrow> bool) \<Rightarrow> 'a list \<Rightarrow> 'a list"
  Format :: "Time \<Rightarrow> string"
  FormatInt :: "64 word \<Rightarrow> string"
  os_Create :: "string \<Rightarrow> string \<Rightarrow> error option"
  writer_Write :: "string list list \<Rightarrow> string list \<Rightarrow> error option"
  writer_Flush :: "string list list \<Rightarrow> error option"
  file_Close :: "string list list \<Rightarrow> error option"

record CSVReporter =
  outputDir :: string

text \<open>The deferred function: \<open>if cerr := file.Close(); cerr != nil && err == nil\<close>.\<close>

definition deferClose ::
  "'a ReportEnv \<Rightarrow> error option \<times> string list list \<Rightarrow> error option \<times> string list list"
where
  "deferClose env res =
     (case res of (err, rows) \<Rightarrow>
        (case file_Close env rows of
           Some cerr \<Rightarrow>
             if err = None then (Some (Errorf ''failed to close file: '' cerr), rows)
             else (err, rows)
         | None \<Rightarrow> (err, rows)))"

text \<open>The loop \<open>for _, rec := range records\<close>, over any row function.\<close>

fun writeRecords ::
  "'a ReportEnv \<Rightarrow> ('a \<Rightarrow> string list) \<Rightarrow> 'a list \<Rightarrow> string list list
     \<Rightarrow> error option \<times> string list list"
where
  "writeRecords env row [] rows = (None, rows)"
| "writeRecords env row (rec # recs) rows =
     (case writer_Write env rows (row rec) of
        Some err \<Rightarrow> (Some (Errorf ''failed to write record: '' err), rows)
      | None \<Rightarrow> writeRecords env row recs (rows @ [row rec]))"

text \<open>Everything after \<open>os.Create\<close> succeeded, before the deferred close.\<close>

definition writeReport ::
  "'a ReportEnv \<Rightarrow> string list \<Rightarrow> ('a \<Rightarrow> string list) \<Rightarrow> 'a list
     \<Rightarrow> error option \<times> string list list"
where
  "writeReport env header row records =
     (case writer_Write env [] header of
        Some err \<Rightarrow> (Some (Errorf ''failed to write header: '' err), [])
      | None \<Rightarrow>
          (case writeRecords env row records [header] of
             (Some err, rows) \<Rightarrow> (Some err, rows)
           | (None, rows) \<Rightarrow>
               (case writer_Flush env rows of
                  Some err \<Rightarrow> (Some (Errorf ''failed to flush writer: '' err), rows)
                | None \<Rightarrow> (None, rows))))"

text \<open>The closure given to \<open>sort.Slice\<close> in \<open>WriteFilesByOwner\<close>, and the row of a record.\<close>

definition less_FileRecord :: "FileRecord \<Rightarrow> FileRecord \<Rightarrow> bool" where
  "less_FileRecord ri rj =
     (if FileRecord.OwnerEmail ri \<noteq> FileRecord.OwnerEmail rj
      then FileRecord.OwnerEmail ri < FileRecord.OwnerEmail rj
      else FileRecord.FileName ri < FileRecord.FileName rj)"

definition header_FilesByOwner :: "string list" where
  "header_FilesByOwner =
     [''owner_email'', ''file_id'', ''file_name'', ''file_type'',
      ''created_time'', ''modified_time'', ''size_bytes'']"

definition row_FileRecord :: "FileRecord ReportEnv \<Rightarrow> FileRecord \<Rightarrow> string list" where
  "row_FileRecord env rec =
     (let createdTime =
            (if \<not> IsZero (FileRecord.CreatedTime rec)
             then Format env (FileRecord.CreatedTime rec) else '''');
          modifiedTime =
            (if \<not> IsZero (FileRecord.ModifiedTime rec)
             then Format env (FileRecord.ModifiedTime rec) else '''')
      in [FileRecord.OwnerEmail rec, FileRecord.FileID rec, FileRecord.FileName rec,
          FileType rec, createdTime, modifiedTime, FormatInt env (SizeBytes rec)])"

definition WriteFilesByOwner ::
  "FileRecord ReportEnv \<Rightarrow> CSVReporter \<Rightarrow> FileRecord list \<Rightarrow> error option \<times> string list list"
where
  "WriteFilesByOwner env r records =
     (let records = sort_Slice env less_FileRecord records
      in case os_Create env (outputDir r) ''files_by_owner.csv'' of
           Some err \<Rightarrow> (Some (Errorf ''failed to create file: '' err), [])
         | None \<Rightarrow>
             deferClose env (writeReport env header_FilesByOwner (row_FileRecord env) records))"

text \<open>The same for \<open>WriteExternalSharing\<close>.\<close>

definition less_ExternalShareRecord :: "ExternalShareRecord \<Rightarrow> ExternalShareRecord \<Rightarrow> bool" where
  "less_ExternalShareRecord ri rj =
     (if ExternalShareRecord.OwnerEmail ri \<noteq> ExternalShareRecord.OwnerEmail rj
      then ExternalShareRecord.OwnerEmail ri < ExternalShareRecord.OwnerEmail rj
      else ExternalShareRecord.FileName ri < ExternalShareRecord.FileName rj)"

definition header_ExternalSharing :: "string list" where
  "header_ExternalSharing =
     [''owner_email'', ''file_id'', ''file_name'', ''shared_with_email'',
      ''shared_with_domain'', ''permission_type'', ''permission_role'', ''shared_date'']"

definition row_ExternalShareRecord ::
  "ExternalShareRecord ReportEnv \<Rightarrow> ExternalShareRecord \<Rightarrow> string list"
where
  "row_ExternalShareRecord env rec =
     (let sharedDate =
            (if \<not> IsZero (SharedDate rec) then Format env (SharedDate rec) else '''')
      in [ExternalShareRecord.OwnerEmail rec, ExternalShareRecord.FileID rec,
          ExternalShareRecord.FileName rec, SharedWithEmail rec, SharedWithDomain rec,
          PermissionType rec, PermissionRole rec, sharedDate])"

definition WriteExternalSharing ::
  "ExternalShareRecord ReportEnv \<Rightarrow> CSVReporter \<Rightarrow> ExternalShareRecord list
     \<Rightarrow> error option \<times> string list list"
where
  "WriteExternalSharing env r records =
     (let records = sort_Slice env less_ExternalShareRecord records
      in case os_Create env (outputDir r) ''external_sharing.csv'' of
           Some err \<Rightarrow> (Some (Errorf ''failed to create file: '' err), [])
         | None \<Rightarrow>
             deferClose env
               (writeReport env header_ExternalSharing (row_ExternalShareRecord env) records))"

text \<open>
  The order of the report: owner email ascending, ties by file name ascending, on
  the first and third column of a row.
\<close>

definition row_le :: "string list \<Rightarrow> string list \<Rightarrow> bool" where
  "row_le r1 r2 =
     (r1 ! 0 < r2 ! 0 \<or> (r1 ! 0 = r2 ! 0 \<and> r1 ! 2 \<le> r2 ! 2))"

text \<open>An insertion sort, one of the procedures \<open>sort.Slice\<close> may be.\<close>

fun insert_by :: "('a \<Rightarrow> 'a \<Rightarrow> bool) \<Rightarrow> 'a \<Rightarrow> 'a list \<Rightarrow> 'a list" where
  "insert_by lt x [] = [x]"
| "insert_by lt x (y # ys) = (if lt x y then x # y # ys else y # insert_by lt x ys)"

fun insertion_sort :: "('a \<Rightarrow> 'a \<Rightarrow> bool) \<Rightarrow> 'a list \<Rightarrow> 'a list" where
  "insertion_sort lt [] = []"
| "insertion_sort lt (x # xs) = insert_by lt x (insertion_sort lt xs)"

subsection \<open>Package exitcode and the command main\<close>

definition Success :: int where "Success = 0"
definition ConfigError :: int where "ConfigError = 1"
definition AuthError :: int where "AuthError = 2"
definition APIError :: int where "APIError = 3"
definition InternalError :: int where "InternalError = 10"

text \<open>
  The commands of the CLI, and what comes back from the packages a command calls: the
  error of \<open>config.Load\<close> (a configuration error), of \<open>audit.NewAuditor\<close> (an authentication
  error), of the audit operation (a remote-API error), and of the reporter.
\<close>

datatype Command = AuditFiles | AuditSharing | AuditAll | ConfigInit | Version

record RunEnv =
  loadConfig :: "error option"
  NewAuditor :: "error option"
  Audit :: "error option"
  NewCSVReporter :: "error option"
  WriteFiles :: "error option"
  WriteSharing :: "error option"
  configExists :: bool
  Save :: "error option"

definition runAuditFiles :: "RunEnv \<Rightarrow> error option" where
  "runAuditFiles env =
     (case loadConfig env of
        Some err \<Rightarrow> Some (Errorf ''failed to load config: '' err)
      | None \<Rightarrow>
     (case NewAuditor env of
        Some err \<Rightarrow> Some (Errorf ''failed to create auditor: '' err)
      | None \<Rightarrow>
     (case Audit env of
        Some err \<Rightarrow> Some (Errorf ''audit failed: '' err)
      | None \<Rightarrow>
     (case NewCSVReporter env of
        Some err \<Rightarrow> Some (Errorf ''failed to create reporter: '' err)
      | None \<Rightarrow>
     (case WriteFiles env of
        Some err \<Rightarrow> Some (Errorf ''failed to write report: '' err)
      | None \<Rightarrow> None)))))"

definition runAuditSharing :: "RunEnv \<Rightarrow> error option" where
  "runAuditSharing env =
     (case loadConfig env of
        Some err \<Rightarrow> Some (Errorf ''failed to load config: '' err)
      | None \<Rightarrow>
     (case NewAuditor env of
        Some err \<Rightarrow> Some (Errorf ''failed to create auditor: '' err)
      | None \<Rightarrow>
     (case Audit env of
        Some err \<Rightarrow> Some (Errorf ''audit failed: '' err)
      | None \<Rightarrow>
     (case NewCSVReporter env of
        Some err \<Rightarrow> Some (Errorf ''failed to create reporter: '' err)
      | None \<Rightarrow>
     (case WriteSharing env of
        Some err \<Rightarrow> Some (Errorf ''failed to write report: '' err)
      | None \<Rightarrow> None)))))"

definition runAuditAll :: "RunEnv \<Rightarrow> error option" where
  "runAuditAll env =
     (case loadConfig env of
        Some err \<Rightarrow> Some (Errorf ''failed to load config: '' err)
      | None \<Rightarrow>
     (case NewAuditor env of
        Some err \<Rightarrow> Some (Errorf ''failed to create auditor: '' err)
      | None \<Rightarrow>
     (case Audit env of
        Some err \<Rightarrow> Some (Errorf ''audit failed: '' err)
      | None \<Rightarrow>
     (case NewCSVReporter env of
        Some err \<Rightarrow> Some (Errorf ''failed to create reporter: '' err)
      | None \<Rightarrow>
     (case WriteFiles env of
        Some err \<Rightarrow> Some (Errorf ''failed to write files report: '' err)
      | None \<Rightarrow>
     (case WriteSharing env of
        Some err \<Rightarrow> Some (Errorf ''failed to write sharing report: '' err)
      | None \<Rightarrow> None))))))"

definition runConfigInit :: "RunEnv \<Rightarrow> error option" where
  "runConfigInit env =
     (if configExists env then Some (ErrorNew ''config file .gwork.yaml already exists'')
      else case Save env of
             Some err \<Rightarrow> Some (Errorf ''failed to create config file: '' err)
           | None \<Rightarrow> None)"

definition Execute :: "RunEnv \<Rightarrow> Command \<Rightarrow> error option" where
  "Execute env cmd =
     (case cmd of
        AuditFiles \<Rightarrow> runAuditFiles env
      | AuditSharing \<Rightarrow> runAuditSharing env
      | AuditAll \<Rightarrow> runAuditAll env
      | ConfigInit \<Rightarrow> runConfigInit env
      | Version \<Rightarrow> None)"

text \<open>
  \<open>main\<close>: the exit status of the process. Returning from \<open>main\<close> is status 0, which is
  \<open>Success\<close>.
\<close>

definition main :: "RunEnv \<Rightarrow> Command \<Rightarrow> int" where
  "main env cmd =
     (case Execute env cmd of
        Some err \<Rightarrow> InternalError
      | None \<Rightarrow> Success)"

subsection \<open>The remote listing, seen from the protocol\<close>

text \<open>
  \<open>filePages c ctx pageToken w pages\<close> describes the collaborators, not the code: asked
  from \<open>pageToken\<close> on in world \<open>w\<close>, with no cancellation seen, the file listing answers
  with the pages \<open>pages\<close>, one per request, each carrying a non-empty continuation token
  that the next request presents. The value is the token and the world after the last
  of them. \<open>permPages\<close> is the same for the permission listing of one file.
\<close>

fun filePages ::
  "'w Client \<Rightarrow> 'w Context \<Rightarrow> string \<Rightarrow> 'w \<Rightarrow> ListFilesResult list \<Rightarrow> (string \<times> 'w) option"
where
  "filePages c ctx pageToken w [] = Some (pageToken, w)"
| "filePages c ctx pageToken w (page # pages) =
     (case ctx w of
        (Some e, w1) \<Rightarrow> None
      | (None, w1) \<Rightarrow>
          (case ListFiles (api c) ctx (listFilesOptions c pageToken) w1 of
             (Inl err, w2) \<Rightarrow> None
           | (Inr result, w2) \<Rightarrow>
               if result = page \<and> ListFilesResult.NextPageToken result \<noteq> ''''
               then filePages c ctx (ListFilesResult.NextPageToken result) w2 pages
               else None))"

fun permPages ::
  "'w Client \<Rightarrow> 'w Context \<Rightarrow> string \<Rightarrow> string \<Rightarrow> 'w \<Rightarrow> ListPermissionsResult list
     \<Rightarrow> (string \<times> 'w) option"
where
  "permPages c ctx fileID pageToken w [] = Some (pageToken, w)"
| "permPages c ctx fileID pageToken w (page # pages) =
     (case ctx w of
        (Some e, w1) \<Rightarrow> None
      | (None, w1) \<Rightarrow>
          (case ListPermissions (api c) ctx fileID (listPermissionsOptions c pageToken) w1 of
             (Inl err, w2) \<Rightarrow> None
           | (Inr result, w2) \<Rightarrow>
               if result = page \<and> ListPermissionsResult.NextPageToken result \<noteq> ''''
               then permPages c ctx fileID (ListPermissionsResult.NextPageToken result) w2 pages
               else None))"

text \<open>The items of a sequence of pages, in the order received.\<close>

definition fileItems :: "ListFilesResult list \<Rightarrow> FileInfo list" where
  "fileItems pages = concat (map (\<lambda>page. map toFileInfo (Files page)) pages)"

definition permItems :: "ListPermissionsResult list \<Rightarrow> Permission list" where
  "permItems pages = concat (map (\<lambda>page. map toPermission (Permissions page)) pages)"

text \<open>
  \<open>permFetches a ctx files w\<close> describes the collaborators again: with no cancellation
  seen before any of the files \<open>files\<close>, the permission fetch of each one, in order,
  returns; the value lists each file with what its fetch returned, and the world after
  the last fetch.
\<close>

fun permFetches ::
  "'w Auditor \<Rightarrow> 'w Context \<Rightarrow> FileInfo list \<Rightarrow> 'w
     \<Rightarrow> ((FileInfo \<times> Permission list \<times> error option) list \<times> 'w) option"
where
  "permFetches a ctx [] w = Some ([], w)"
| "permFetches a ctx (file # files) w =
     (case ctx w of
        (Some e, w1) \<Rightarrow> None
      | (None, w1) \<Rightarrow>
          (case GetFilePermissions (driveClient a) ctx (FileInfo.ID file) w1 of
             None \<Rightarrow> None
           | Some ((perms, err), w2) \<Rightarrow>
               (case permFetches a ctx files w2 of
                  None \<Rightarrow> None
                | Some (fetches, w3) \<Rightarrow> Some ((file, perms, err) # fetches, w3))))"

subsection \<open>Test doubles\<close>

text \<open>
  Collaborators for concrete runs, in the manner of the repository's mocks. The world
  is the number of looks taken at the context so far. \<open>background\<close> is
  \<open>context.Background()\<close>; \<open>cancelledFrom k\<close> is cancelled from its \<open>k\<close>-th look on.
  \<open>scriptedAPI\<close> lists three files on two pages, and their permissions: two pages for
  file \<open>a\<close>, a failure for file \<open>b\<close>, one page for any other file.
\<close>

definition background :: "nat Context" where
  "background n = (None, Suc n)"

definition cancelledFrom :: "nat \<Rightarrow> nat Context" where
  "cancelledFrom k n = (if k \<le> n then Some Canceled else None, Suc n)"

definition fileA :: api_File where
  "fileA = \<lparr>api_File.Id = ''a'', Name = ''a.txt'', MimeType = ''text/plain'',
            Owners = [\<lparr>api_User.EmailAddress = ''bob@example.com''\<rparr>,
                      \<lparr>api_User.EmailAddress = ''zed@example.com''\<rparr>],
            CreatedTime = ''2025-01-01T00:00:00Z'', ModifiedTime = ''2025-01-02T00:00:00Z'',
            Size = 1024\<rparr>"

definition fileB :: api_File where
  "fileB = \<lparr>api_File.Id = ''b'', Name = ''b.txt'', MimeType = ''text/plain'',
            Owners = [\<lparr>api_User.EmailAddress = ''alice@example.com''\<rparr>],
            CreatedTime = '''', ModifiedTime = '''', Size = 0\<rparr>"

definition fileC :: api_File where
  "fileC = \<lparr>api_File.Id = ''c'', Name = ''c.txt'', MimeType = ''application/pdf'',
            Owners = [], CreatedTime = '''', ModifiedTime = '''', Size = 2048\<rparr>"

definition permAnyone :: api_Permission where
  "permAnyone = \<lparr>api_Permission.Id = ''p1'', Type = ''anyone'', Role = ''reader'',
                 EmailAddress = '''', Domain = '''', DisplayName = ''''\<rparr>"

definition permOutside :: api_Permission where
  "permOutside = \<lparr>api_Permission.Id = ''p2'', Type = ''user'', Role = ''writer'',
                  EmailAddress = ''x@other.com'', Domain = '''', DisplayName = ''X''\<rparr>"

definition permInside :: api_Permission where
  "permInside = \<lparr>api_Permission.Id = ''p3'', Type = ''user'', Role = ''owner'',
                 EmailAddress = ''bob@example.com'', Domain = '''', DisplayName = ''Bob''\<rparr>"

definition permPartner :: api_Permission where
  "permPartner = \<lparr>api_Permission.Id = ''p4'', Type = ''domain'', Role = ''reader'',
                  EmailAddress = '''', Domain = ''partner.org'', DisplayName = ''''\<rparr>"

definition filesPage1 :: ListFilesResult where
  "filesPage1 = \<lparr>Files = [fileA, fileB], NextPageToken = ''t1''\<rparr>"

definition filesPage2 :: ListFilesResult where
  "filesPage2 = \<lparr>Files = [fileC], NextPageToken = ''''\<rparr>"

definition permsPage1 :: ListPermissionsResult where
  "permsPage1 = \<lparr>Permissions = [permAnyone], NextPageToken = ''q1''\<rparr>"

definition permsPage2 :: ListPermissionsResult where
  "permsPage2 = \<lparr>Permissions = [permOutside, permInside], NextPageToken = ''''\<rparr>"

definition permsPageC :: ListPermissionsResult where
  "permsPageC = \<lparr>Permissions = [permPartner], NextPageToken = ''''\<rparr>"

definition scriptedAPI :: "nat DriveAPI" where
  "scriptedAPI =
     \<lparr>ListFiles = (\<lambda>ctx opts w.
        if ListFilesOptions.PageToken opts = '''' then (Inr filesPage1, w)
        else if ListFilesOptions.PageToken opts = ''t1'' then (Inr filesPage2, w)
        else (Inl (ErrorNew ''invalid page token''), w)),
      ListPermissions = (\<lambda>ctx fileID opts w.
        if fileID = ''a'' then
          (if ListPermissionsOptions.PageToken opts = '''' then (Inr permsPage1, w)
           else if ListPermissionsOptions.PageToken opts = ''q1'' then (Inr permsPage2, w)
           else (Inl (ErrorNew ''invalid page token''), w))
        else if fileID = ''b'' then (Inl (ErrorNew ''forbidden''), w)
        else (Inr permsPageC, w))\<rparr>"

definition exampleClient :: "nat Client" where
  "exampleClient = NewClientWithAPI scriptedAPI ''example.com'' 100 True"

definition exampleAuditor :: "nat Auditor" where
  "exampleAuditor = NewAuditorWithClient (Client_DriveClient exampleClient)"

text \<open>\<open>endlessAPI\<close> answers every request with a page that asks for another request.\<close>

definition endlessAPI :: "nat DriveAPI" where
  "endlessAPI =
     \<lparr>ListFiles = (\<lambda>ctx opts w. (Inr filesPage1, w)),
      ListPermissions = (\<lambda>ctx fileID opts w. (Inr permsPage1, w))\<rparr>"

definition endlessClient :: "nat Client" where
  "endlessClient = NewClientWithAPI endlessAPI ''example.com'' 100 True"

text \<open>
  A reporter environment in which nothing fails and \<open>sort.Slice\<close> is the insertion
  sort, and unsorted records for it.
\<close>

definition reportEnv :: "'a ReportEnv" where
  "reportEnv =
     \<lparr>sort_Slice = insertion_sort,
      Format = (\<lambda>t. ''2025-01-01T00:00:00Z''),
      FormatInt = (\<lambda>n. ''1024''),
      os_Create = (\<lambda>dir name. None),
      writer_Write = (\<lambda>rows row. None),
      writer_Flush = (\<lambda>rows. None),
      file_Close = (\<lambda>rows. None)\<rparr>"

definition fileRecords :: "FileRecord list" where
  "fileRecords =
     [\<lparr>FileRecord.OwnerEmail = ''bob@x.org'', FileID = ''1'', FileName = ''b.txt'',
       FileType = ''text/plain'', CreatedTime = 0, ModifiedTime = 0, SizeBytes = 1024\<rparr>,
      \<lparr>FileRecord.OwnerEmail = ''al@x.org'', FileID = ''2'', FileName = ''z.txt'',
       FileType = ''text/plain'', CreatedTime = 0, ModifiedTime = 0, SizeBytes = 1024\<rparr>,
      \<lparr>FileRecord.OwnerEmail = ''al@x.org'', FileID = ''3'', FileName = ''Z.txt'',
       FileType = ''text/plain'', CreatedTime = 0, ModifiedTime = 0, SizeBytes = 1024\<rparr>]"

definition shareRecords :: "ExternalShareRecord list" where
  "shareRecords =
     [\<lparr>ExternalShareRecord.OwnerEmail = ''bob@x.org'', FileID = ''1'', FileName = ''b.txt'',
       SharedWithEmail = '''', SharedWithDomain = '''', PermissionType = ''anyone'',
       PermissionRole = ''reader'', SharedDate = 0\<rparr>,
      \<lparr>ExternalShareRecord.OwnerEmail = ''al@x.org'', FileID = ''2'', FileName = ''z.txt'',
       SharedWithEmail = ''x@y.com'', SharedWithDomain = ''y.com'', PermissionType = ''user'',
       PermissionRole = ''writer'', SharedDate = 0\<rparr>,
      \<lparr>ExternalShareRecord.OwnerEmail = ''al@x.org'', FileID = ''3'', FileName = ''Z.txt'',
       SharedWithEmail = '''', SharedWithDomain = ''y.com'', PermissionType = ''domain'',
       PermissionRole = ''reader'', SharedDate = 0\<rparr>]"

text \<open>
  Runs of the CLI: one in which nothing fails, one in which the configuration is
  invalid, one in which the credentials cannot be loaded, one in which the remote
  listing fails.
\<close>

definition okRun :: RunEnv where
  "okRun =
     \<lparr>loadConfig = None, NewAuditor = None, Audit = None, NewCSVReporter = None,
      WriteFiles = None, WriteSharing = None, configExists = False, Save = None\<rparr>"

definition configFailure :: RunEnv where
  "configFailure =
     okRun\<lparr>loadConfig :=
       Some (Errorf ''invalid configuration: '' (ErrorNew ''google.domain is required''))\<rparr>"

definition authFailure :: RunEnv where
  "authFailure =
     okRun\<lparr>NewAuditor :=
       Some (Errorf ''failed to create drive service: ''
              (Errorf ''failed to read service account file: '' (ErrorNew ''permission denied'')))\<rparr>"

definition apiFailure :: RunEnv where
  "apiFailure =
     okRun\<lparr>Audit :=
       Some (Errorf ''failed to list files: ''
              (Errorf ''failed to list files: '' (ErrorNew ''googleapi: Error 403'')))\<rparr>"

declare ListAllFiles_loop.simps [code]
declare GetFilePermissions_loop.simps [code]

section \<open>Properties\<close>

subsection \<open>Domain extraction\<close>

lemma LastIndex_upto_none:
  "c \<notin> set s \<Longrightarrow> LastIndex_upto s [c] i = - 1"
proof (induction i)
  case 0
  then show ?case by (cases s) auto
next
  case (Suc i)
  have "take (Suc 0) (drop (Suc i) s) \<noteq> [c]"
  proof
    assume h: "take (Suc 0) (drop (Suc i) s) = [c]"
    have "c \<in> set (take (Suc 0) (drop (Suc i) s))" by (simp add: h)
    then have "c \<in> set s" by (meson in_set_dropD in_set_takeD)
    with Suc.prems show False by simp
  qed
  with Suc show ?case by simp
qed

lemma LastIndex_upto_last:
  "c \<notin> set d \<Longrightarrow> length p \<le> i \<Longrightarrow> LastIndex_upto (p @ c # d) [c] i = int (length p)"
proof (induction i)
  case 0
  then show ?case by simp
next
  case (Suc i)
  show ?case
  proof (cases "Suc i = length p")
    case True
    then have "length p = Suc i" by simp
    then show ?thesis by simp
  next
    case False
    with Suc.prems have le: "length p \<le> i" by simp
    have "take (Suc 0) (drop (Suc i) (p @ c # d)) \<noteq> [c]"
    proof
      assume h: "take (Suc 0) (drop (Suc i) (p @ c # d)) = [c]"
      have eq: "drop (Suc i) (p @ c # d) = drop (i - length p) d"
        using le by (simp add: Suc_diff_le)
      from h have "take (Suc 0) (drop (i - length p) d) = [c]" by (simp only: eq)
      then have "c \<in> set (take (Suc 0) (drop (i - length p) d))" by simp
      then have "c \<in> set d" by (meson in_set_dropD in_set_takeD)
      with Suc.prems show False by simp
    qed
    with Suc.IH[OF Suc.prems(1) le] show ?thesis by simp
  qed
qed

lemma LastIndex_upto_le: "LastIndex_upto s substr i \<le> int i"
  by (induction i) auto

lemma LastIndex_at_less: "LastIndex s ''@'' < int (length s) \<or> s = []"
proof (cases "length s")
  case 0
  then show ?thesis by simp
next
  case (Suc n)
  have "LastIndex_upto s ''@'' n \<le> int n" by (rule LastIndex_upto_le)
  with Suc show ?thesis by (simp add: LastIndex_def)
qed

lemma ExtractDomain_slice_in_range:
  "0 \<le> LastIndex email ''@'' \<Longrightarrow> nat (LastIndex email ''@'' + 1) \<le> length email"
  using LastIndex_at_less[of email] by (auto simp: LastIndex_def)

lemma ExtractDomain_no_at: "CHR ''@'' \<notin> set email \<Longrightarrow> ExtractDomain email = ''''"
  by (simp add: ExtractDomain_def LastIndex_def LastIndex_upto_none)

lemma ExtractDomain_last_at:
  "CHR ''@'' \<notin> set d \<Longrightarrow> ExtractDomain (local @ ''@'' @ d) = d"
proof -
  assume "CHR ''@'' \<notin> set d"
  moreover have "nat (int (length local) + 1) = Suc (length local)" by simp
  ultimately show ?thesis
    by (simp add: ExtractDomain_def LastIndex_def LastIndex_upto_last)
qed

text \<open>
  C8. \<open>ExtractDomain\<close> returns the empty string for an email without \<open>@\<close>, and for an
  email \<open>local @ "@" @ d\<close> in which \<open>d\<close> has no \<open>@\<close> (so that this \<open>@\<close> is the last one)
  it returns \<open>d\<close>, whatever \<open>local\<close> holds, further \<open>@\<close> included.
\<close>

theorem ExtractDomain_after_last_at:
  "(CHR ''@'' \<notin> set email \<longrightarrow> ExtractDomain email = '''') \<and>
   (CHR ''@'' \<notin> set d \<longrightarrow> ExtractDomain (local @ ''@'' @ d) = d)"
  using ExtractDomain_no_at ExtractDomain_last_at by blast

theorem ExtractDomain_after_last_at_witness:
  "ExtractDomain ''local@dom'' = ''dom'' \<and> ExtractDomain ''a@b@dom'' = ''dom''
   \<and> ExtractDomain ''nodomain'' = '''' \<and> ExtractDomain ''trailing@'' = ''''"
  using ExtractDomain_after_last_at[of "''nodomain''" "''dom''" "''local''"]
    ExtractDomain_after_last_at[of "''nodomain''" "''dom''" "''a@b''"]
    ExtractDomain_after_last_at[of "''nodomain''" "''''" "''trailing''"]
  by simp

subsection \<open>The domain classifier\<close>

text \<open>
  C1. \<open>IsExternalShare\<close> follows the decision table, the first matching row deciding:
  \<open>anyone\<close> is external whatever the other fields hold; \<open>domain\<close> is external iff the
  permission's domain differs from the organization's (so an empty domain is external
  for a non-empty organization domain); \<open>user\<close> and \<open>group\<close> are internal when the email
  is empty, and otherwise external iff what follows the last \<open>@\<close> of the email (nothing,
  when there is no \<open>@\<close>) differs, byte for byte, from the organization domain; every
  other type is internal.
\<close>

theorem IsExternalShare_decision_table:
  "(Permission.Type perm = ''anyone'' \<longrightarrow> Client_IsExternalShare c perm) \<and>
   (Permission.Type perm = ''domain'' \<longrightarrow>
      Client_IsExternalShare c perm = (Permission.Domain perm \<noteq> domain c)) \<and>
   (Permission.Type perm = ''domain'' \<and> Permission.Domain perm = '''' \<and> domain c \<noteq> '''' \<longrightarrow>
      Client_IsExternalShare c perm) \<and>
   ((Permission.Type perm = ''user'' \<or> Permission.Type perm = ''group'')
      \<and> Permission.EmailAddress perm = '''' \<longrightarrow> \<not> Client_IsExternalShare c perm) \<and>
   ((Permission.Type perm = ''user'' \<or> Permission.Type perm = ''group'')
      \<and> Permission.EmailAddress perm = local @ ''@'' @ d \<and> CHR ''@'' \<notin> set d \<longrightarrow>
      Client_IsExternalShare c perm = (d \<noteq> domain c)) \<and>
   ((Permission.Type perm = ''user'' \<or> Permission.Type perm = ''group'')
      \<and> Permission.EmailAddress perm \<noteq> '''' \<and> CHR ''@'' \<notin> set (Permission.EmailAddress perm) \<longrightarrow>
      Client_IsExternalShare c perm = (domain c \<noteq> '''')) \<and>
   (Permission.Type perm \<notin> {''anyone'', ''domain'', ''user'', ''group''} \<longrightarrow>
      \<not> Client_IsExternalShare c perm)"
proof -
  have "Permission.EmailAddress perm = local @ ''@'' @ d \<Longrightarrow> CHR ''@'' \<notin> set d \<Longrightarrow>
        ExtractDomain (Permission.EmailAddress perm) = d"
    using ExtractDomain_last_at[of d local] by simp
  moreover have "CHR ''@'' \<notin> set (Permission.EmailAddress perm) \<Longrightarrow>
        ExtractDomain (Permission.EmailAddress perm) = ''''"
    by (rule ExtractDomain_no_at)
  ultimately show ?thesis
    unfolding Client_IsExternalShare_def Let_def by auto
qed

theorem IsExternalShare_decision_table_witness:
  "\<not> Client_IsExternalShare exampleClient
       \<lparr>Permission.ID = ''1'', Type = ''domain'', Role = ''reader'', EmailAddress = '''',
        Domain = ''example.com'', DisplayName = ''''\<rparr>
   \<and> Client_IsExternalShare exampleClient
       \<lparr>Permission.ID = ''2'', Type = ''domain'', Role = ''reader'', EmailAddress = '''',
        Domain = '''', DisplayName = ''''\<rparr>
   \<and> \<not> Client_IsExternalShare exampleClient
       \<lparr>Permission.ID = ''3'', Type = ''user'', Role = ''reader'',
        EmailAddress = ''x@example.com'', Domain = '''', DisplayName = ''''\<rparr>
   \<and> \<not> Client_IsExternalShare exampleClient
       \<lparr>Permission.ID = ''4'', Type = ''user'', Role = ''reader'', EmailAddress = '''',
        Domain = '''', DisplayName = ''''\<rparr>
   \<and> Client_IsExternalShare exampleClient
       \<lparr>Permission.ID = ''5'', Type = ''user'', Role = ''reader'',
        EmailAddress = ''x@other.com'', Domain = '''', DisplayName = ''''\<rparr>
   \<and> Client_IsExternalShare exampleClient
       \<lparr>Permission.ID = ''6'', Type = ''group'', Role = ''reader'',
        EmailAddress = ''x@Example.com'', Domain = '''', DisplayName = ''''\<rparr>
   \<and> Client_IsExternalShare exampleClient
       \<lparr>Permission.ID = ''7'', Type = ''group'', Role = ''reader'',
        EmailAddress = ''nobody'', Domain = '''', DisplayName = ''''\<rparr>
   \<and> Client_IsExternalShare exampleClient
       \<lparr>Permission.ID = ''8'', Type = ''anyone'', Role = ''reader'',
        EmailAddress = ''x@example.com'', Domain = ''example.com'', DisplayName = ''''\<rparr>
   \<and> \<not> Client_IsExternalShare exampleClient
       \<lparr>Permission.ID = ''9'', Type = ''robot'', Role = ''reader'',
        EmailAddress = ''x@other.com'', Domain = ''other.com'', DisplayName = ''''\<rparr>"
proof -
  have dom: "domain exampleClient = ''example.com''"
    by (simp add: exampleClient_def NewClientWithAPI_def)
  note t = IsExternalShare_decision_table[where c = exampleClient]
  show ?thesis
    using
      t[of "\<lparr>Permission.ID = ''1'', Type = ''domain'', Role = ''reader'', EmailAddress = '''',
             Domain = ''example.com'', DisplayName = ''''\<rparr>" "''''" "''''"]
      t[of "\<lparr>Permission.ID = ''2'', Type = ''domain'', Role = ''reader'', EmailAddress = '''',
             Domain = '''', DisplayName = ''''\<rparr>" "''''" "''''"]
      t[of "\<lparr>Permission.ID = ''3'', Type = ''user'', Role = ''reader'',
             EmailAddress = ''x@example.com'', Domain = '''', DisplayName = ''''\<rparr>"
           "''x''" "''example.com''"]
      t[of "\<lparr>Permission.ID = ''4'', Type = ''user'', Role = ''reader'', EmailAddress = '''',
             Domain = '''', DisplayName = ''''\<rparr>" "''''" "''''"]
      t[of "\<lparr>Permission.ID = ''5'', Type = ''user'', Role = ''reader'',
             EmailAddress = ''x@other.com'', Domain = '''', DisplayName = ''''\<rparr>"
           "''x''" "''other.com''"]
      t[of "\<lparr>Permission.ID = ''6'', Type = ''group'', Role = ''reader'',
             EmailAddress = ''x@Example.com'', Domain = '''', DisplayName = ''''\<rparr>"
           "''x''" "''Example.com''"]
      t[of "\<lparr>Permission.ID = ''7'', Type = ''group'', Role = ''reader'',
             EmailAddress = ''nobody'', Domain = '''', DisplayName = ''''\<rparr>" "''''" "''''"]
      t[of "\<lparr>Permission.ID = ''8'', Type = ''anyone'', Role = ''reader'',
             EmailAddress = ''x@example.com'', Domain = ''example.com'', DisplayName = ''''\<rparr>"
           "''''" "''''"]
      t[of "\<lparr>Permission.ID = ''9'', Type = ''robot'', Role = ''reader'',
             EmailAddress = ''x@other.com'', Domain = ''other.com'', DisplayName = ''''\<rparr>"
           "''''" "''''"]
    by (simp add: dom)
qed

subsection \<open>The pagination aggregators\<close>

lemma appendFiles_eq: "appendFiles allFiles files = allFiles @ map toFileInfo files"
  by (induction files arbitrary: allFiles) auto

lemma appendPerms_eq: "appendPerms allPerms perms = allPerms @ map toPermission perms"
  by (induction perms arbitrary: allPerms) auto

lemma ListAllFiles_loop_cancelled:
  "ctx w = (Some e, w1) \<Longrightarrow> ListAllFiles_loop c ctx t acc w = Some ((acc, Some e), w1)"
  by (subst ListAllFiles_loop.simps) simp

lemma ListAllFiles_loop_failed:
  "ctx w = (None, w1) \<Longrightarrow> ListFiles (api c) ctx (listFilesOptions c t) w1 = (Inl err, w2) \<Longrightarrow>
   ListAllFiles_loop c ctx t acc w = Some (([], Some (Errorf ''failed to list files: '' err)), w2)"
  by (subst ListAllFiles_loop.simps) simp


lemma ListAllFiles_loop_more:
  "ctx w = (None, w1) \<Longrightarrow> ListFiles (api c) ctx (listFilesOptions c t) w1 = (Inr page, w2) \<Longrightarrow>
   ListFilesResult.NextPageToken page \<noteq> '''' \<Longrightarrow>
   ListAllFiles_loop c ctx t acc w =
     ListAllFiles_loop c ctx (ListFilesResult.NextPageToken page) (acc @ map toFileInfo (Files page)) w2"
  by (subst ListAllFiles_loop.simps) (simp add: appendFiles_eq)

lemma ListAllFiles_loop_pages:
  "filePages c ctx t w pages = Some (t', w') \<Longrightarrow>
   ListAllFiles_loop c ctx t acc w = ListAllFiles_loop c ctx t' (acc @ fileItems pages) w'"
proof (induction pages arbitrary: t w acc)
  case Nil
  then show ?case by (simp add: fileItems_def)
next
  case (Cons page pages)
  from Cons.prems obtain w1 w2 where
    look: "ctx w = (None, w1)" and
    call: "ListFiles (api c) ctx (listFilesOptions c t) w1 = (Inr page, w2)" and
    more: "ListFilesResult.NextPageToken page \<noteq> ''''" and
    rest: "filePages c ctx (ListFilesResult.NextPageToken page) w2 pages = Some (t', w')"
    by (auto split: prod.splits option.splits sum.splits if_splits)
  have "ListAllFiles_loop c ctx t acc w =
        ListAllFiles_loop c ctx (ListFilesResult.NextPageToken page) (acc @ map toFileInfo (Files page)) w2"
    by (rule ListAllFiles_loop_more[OF look call more])
  also have "\<dots> = ListAllFiles_loop c ctx t' ((acc @ map toFileInfo (Files page)) @ fileItems pages) w'"
    by (rule Cons.IH[OF rest])
  finally show ?case by (simp add: fileItems_def)
qed


lemma GetFilePermissions_loop_cancelled:
  "ctx w = (Some e, w1) \<Longrightarrow> GetFilePermissions_loop c ctx fileID t acc w = Some ((acc, Some e), w1)"
  by (subst GetFilePermissions_loop.simps) simp

lemma GetFilePermissions_loop_failed:
  "ctx w = (None, w1) \<Longrightarrow> ListPermissions (api c) ctx fileID (listPermissionsOptions c t) w1 = (Inl err, w2) \<Longrightarrow>
   GetFilePermissions_loop c ctx fileID t acc w = Some (([], Some (Errorf (''failed to list permissions for file '' @ fileID @ '': '') err)), w2)"
  by (subst GetFilePermissions_loop.simps) simp


lemma GetFilePermissions_loop_more:
  "ctx w = (None, w1) \<Longrightarrow> ListPermissions (api c) ctx fileID (listPermissionsOptions c t) w1 = (Inr page, w2) \<Longrightarrow>
   ListPermissionsResult.NextPageToken page \<noteq> '''' \<Longrightarrow>
   GetFilePermissions_loop c ctx fileID t acc w =
     GetFilePermissions_loop c ctx fileID (ListPermissionsResult.NextPageToken page) (acc @ map toPermission (Permissions page)) w2"
  by (subst GetFilePermissions_loop.simps) (simp add: appendPerms_eq)

lemma GetFilePermissions_loop_pages:
  "permPages c ctx fileID t w pages = Some (t', w') \<Longrightarrow>
   GetFilePermissions_loop c ctx fileID t acc w = GetFilePermissions_loop c ctx fileID t' (acc @ permItems pages) w'"
proof (induction pages arbitrary: t w acc)
  case Nil
  then show ?case by (simp add: permItems_def)
next
  case (Cons page pages)
  from Cons.prems obtain w1 w2 where
    look: "ctx w = (None, w1)" and
    call: "ListPermissions (api c) ctx fileID (listPermissionsOptions c t) w1 = (Inr page, w2)" and
    more: "ListPermissionsResult.NextPageToken page \<noteq> ''''" and
    rest: "permPages c ctx fileID (ListPermissionsResult.NextPageToken page) w2 pages = Some (t', w')"
    by (auto split: prod.splits option.splits sum.splits if_splits)
  have "GetFilePermissions_loop c ctx fileID t acc w =
        GetFilePermissions_loop c ctx fileID (ListPermissionsResult.NextPageToken page) (acc @ map toPermission (Permissions page)) w2"
    by (rule GetFilePermissions_loop_more[OF look call more])
  also have "\<dots> = GetFilePermissions_loop c ctx fileID t' ((acc @ map toPermission (Permissions page)) @ permItems pages) w'"
    by (rule Cons.IH[OF rest])
  finally show ?case by (simp add: permItems_def)
qed


subsection \<open>The test doubles, evaluated\<close>

lemma example_api [simp]:
  "api exampleClient = scriptedAPI" "api endlessClient = endlessAPI"
  by (simp_all add: exampleClient_def endlessClient_def NewClientWithAPI_def)

lemma example_ListFiles [simp]:
  "ListFiles scriptedAPI ctx (listFilesOptions c '''') w = (Inr filesPage1, w)"
  "ListFiles scriptedAPI ctx (listFilesOptions c ''t1'') w = (Inr filesPage2, w)"
  "ListFiles endlessAPI ctx opts w = (Inr filesPage1, w)"
  by (simp_all add: scriptedAPI_def endlessAPI_def listFilesOptions_def)

lemma example_ListPermissions [simp]:
  "ListPermissions scriptedAPI ctx ''a'' (listPermissionsOptions c '''') w = (Inr permsPage1, w)"
  "ListPermissions scriptedAPI ctx ''a'' (listPermissionsOptions c ''q1'') w = (Inr permsPage2, w)"
  "ListPermissions scriptedAPI ctx ''b'' opts w = (Inl (ErrorNew ''forbidden''), w)"
  "ListPermissions scriptedAPI ctx ''c'' opts w = (Inr permsPageC, w)"
  "ListPermissions endlessAPI ctx fileID opts w = (Inr permsPage1, w)"
  by (simp_all add: scriptedAPI_def endlessAPI_def listPermissionsOptions_def)

lemma example_tokens [simp]:
  "ListFilesResult.NextPageToken filesPage1 = ''t1''"
  "ListFilesResult.NextPageToken filesPage2 = ''''"
  "ListPermissionsResult.NextPageToken permsPage1 = ''q1''"
  "ListPermissionsResult.NextPageToken permsPage2 = ''''"
  "ListPermissionsResult.NextPageToken permsPageC = ''''"
  by (simp_all add: filesPage1_def filesPage2_def permsPage1_def permsPage2_def permsPageC_def)



subsection \<open>The audit loop\<close>

lemma auditPerms_eq:
  "auditPerms a file perms result =
     result\<lparr>ExternalShares := ExternalShares result
        @ map (permissionToRecord file) (filter (IsExternalShare (driveClient a)) perms)\<rparr>"
  by (induction perms arbitrary: result) auto

lemma AuditExternalSharing_loop_append:
  "AuditExternalSharing_loop a ctx xs result w = Some ((result1, None), w1) \<Longrightarrow>
   AuditExternalSharing_loop a ctx (xs @ ys) result w = AuditExternalSharing_loop a ctx ys result1 w1"
proof (induction xs arbitrary: result w)
  case Nil
  then show ?case by simp
next
  case (Cons x xs)
  then show ?case
    by (auto split: prod.splits option.splits)
qed

lemma AuditExternalSharing_loop_failed:
  "ctx w = (None, w1) \<Longrightarrow>
   GetFilePermissions (driveClient a) ctx (FileInfo.ID file) w1 = Some ((perms, Some err), w2) \<Longrightarrow>
   AuditExternalSharing_loop a ctx (file # files) result w =
     AuditExternalSharing_loop a ctx files
       (result\<lparr>Errors := Errors result @ [Errorf (''file '' @ FileInfo.ID file @ '': '') err]\<rparr>) w2"
  by simp

lemma AuditExternalSharing_loop_fetches:
  "permFetches a ctx files w = Some (fetches, w') \<Longrightarrow>
   AuditExternalSharing_loop a ctx files result w =
     Some ((result\<lparr>
        FilesProcessed := FilesProcessed result
          + length (filter (\<lambda>(file, perms, err). err = None) fetches),
        Errors := Errors result
          @ concat (map (\<lambda>(file, perms, err). case err of
                None \<Rightarrow> []
              | Some e \<Rightarrow> [Errorf (''file '' @ FileInfo.ID file @ '': '') e]) fetches),
        ExternalShares := ExternalShares result
          @ concat (map (\<lambda>(file, perms, err). case err of
                None \<Rightarrow> map (permissionToRecord file)
                          (filter (IsExternalShare (driveClient a)) perms)
              | Some e \<Rightarrow> []) fetches)\<rparr>, None), w')"
proof (induction files arbitrary: w result fetches)
  case Nil
  then show ?case by simp
next
  case (Cons f fs)
  from Cons.prems obtain w1 perms err w2 rest where
    look: "ctx w = (None, w1)" and
    fetch: "GetFilePermissions (driveClient a) ctx (FileInfo.ID f) w1 = Some ((perms, err), w2)" and
    rest: "permFetches a ctx fs w2 = Some (rest, w')" and
    fs: "fetches = (f, perms, err) # rest"
    by (auto split: prod.splits option.splits)
  show ?case
  proof (cases err)
    case None
    then show ?thesis
      using look fetch fs Cons.IH[OF rest] by (simp add: auditPerms_eq)
  next
    case (Some e)
    then show ?thesis
      using look fetch fs Cons.IH[OF rest] by simp
  qed
qed

lemma AuditExternalSharing_loop_refs:
  "AuditExternalSharing_loop a ctx files result w = Some ((result', err), w') \<Longrightarrow>
   r \<in> set (ExternalShares result') \<Longrightarrow>
   r \<in> set (ExternalShares result) \<or>
   (\<exists>f \<in> set files. ExternalShareRecord.FileID r = FileInfo.ID f
       \<and> ExternalShareRecord.FileName r = FileInfo.Name f
       \<and> ExternalShareRecord.OwnerEmail r = FileInfo.OwnerEmail f)"
proof (induction files arbitrary: result w)
  case Nil
  then show ?case by simp
next
  case (Cons f fs)
  obtain ce w1 where look: "ctx w = (ce, w1)" by (cases "ctx w")
  show ?case
  proof (cases ce)
    case (Some e)
    with look Cons.prems show ?thesis by simp
  next
    case None
    note noc = None
    from Cons.prems(1) look noc obtain perms ferr w2 where
      fetch: "GetFilePermissions (driveClient a) ctx (FileInfo.ID f) w1 = Some ((perms, ferr), w2)"
      by (auto split: option.splits prod.splits)
    show ?thesis
    proof (cases ferr)
      case None
      with Cons.prems(1) look noc fetch have
        "AuditExternalSharing_loop a ctx fs
           (auditPerms a f perms (result\<lparr>FilesProcessed := FilesProcessed result + 1\<rparr>)) w2
         = Some ((result', err), w')" by simp
      from Cons.IH[OF this Cons.prems(2)] show ?thesis
        by (auto simp: auditPerms_eq permissionToRecord_def Let_def)
    next
      case (Some e)
      with Cons.prems(1) look noc fetch have
        "AuditExternalSharing_loop a ctx fs
           (result\<lparr>Errors := Errors result @ [Errorf (''file '' @ FileInfo.ID f @ '': '') e]\<rparr>) w2
         = Some ((result', err), w')" by simp
      from Cons.IH[OF this Cons.prems(2)] show ?thesis by auto
    qed
  qed
qed

lemma AuditExternalSharing_loop_counts:
  "AuditExternalSharing_loop a ctx files result w = Some ((result', None), w') \<Longrightarrow>
   FilesProcessed result' + length (Errors result')
     = FilesProcessed result + length (Errors result) + length files
   \<and> TotalFiles result' = TotalFiles result"
proof (induction files arbitrary: result w)
  case Nil
  then show ?case by simp
next
  case (Cons f fs)
  obtain ce w1 where look: "ctx w = (ce, w1)" by (cases "ctx w")
  show ?case
  proof (cases ce)
    case (Some e)
    with look Cons.prems show ?thesis by simp
  next
    case None
    note noc = None
    from Cons.prems(1) look noc obtain perms ferr w2 where
      fetch: "GetFilePermissions (driveClient a) ctx (FileInfo.ID f) w1 = Some ((perms, ferr), w2)"
      by (auto split: option.splits prod.splits)
    show ?thesis
    proof (cases ferr)
      case None
      with Cons.prems(1) look noc fetch have
        "AuditExternalSharing_loop a ctx fs
           (auditPerms a f perms (result\<lparr>FilesProcessed := FilesProcessed result + 1\<rparr>)) w2
         = Some ((result', None), w')" by simp
      from Cons.IH[OF this] show ?thesis by (simp add: auditPerms_eq)
    next
      case (Some e)
      with Cons.prems(1) look noc fetch have
        "AuditExternalSharing_loop a ctx fs
           (result\<lparr>Errors := Errors result @ [Errorf (''file '' @ FileInfo.ID f @ '': '') e]\<rparr>) w2
         = Some ((result', None), w')" by simp
      from Cons.IH[OF this] show ?thesis by simp
    qed
  qed
qed

subsection \<open>Cancellation\<close>

text \<open>
  C5. Each aggregator looks at the context before every page fetch: when, after the
  pages \<open>pages\<close> (none, or any number of them), the look sees the context cancelled with
  error \<open>e\<close>, the aggregator returns the items of these pages together with \<open>e\<close>, and
  fetches no further page (the world returned is the one after the look). The audit
  looks before every file's permission fetch: when the files \<open>seen\<close> have been processed
  into \<open>result\<close> and the look before the next file sees the cancellation, the audit
  returns that \<open>result\<close> together with \<open>e\<close>.
\<close>

theorem cancellation_returns_partial_results:
  "(filePages c ctx '''' w pages = Some (t, w1) \<and> ctx w1 = (Some e, w2) \<longrightarrow>
    Client_ListAllFiles c ctx w = Some ((fileItems pages, Some e), w2)) \<and>
   (permPages c ctx fileID '''' w ppages = Some (t, w1) \<and> ctx w1 = (Some e, w2) \<longrightarrow>
    Client_GetFilePermissions c ctx fileID w = Some ((permItems ppages, Some e), w2)) \<and>
   (ListAllFiles (driveClient a) ctx w = Some ((seen @ nxt # rest, None), w0)
      \<and> AuditExternalSharing_loop a ctx seen
            \<lparr>TotalFiles = length (seen @ nxt # rest), TotalExternalShares = 0,
             FilesProcessed = 0, Errors = [], FileRecords = [], ExternalShares = []\<rparr> w0
          = Some ((result, None), w1)
      \<and> ctx w1 = (Some e, w2) \<longrightarrow>
    AuditExternalSharing a ctx w = Some ((Some result, Some e), w2))"
proof (intro conjI impI)
  assume h: "filePages c ctx '''' w pages = Some (t, w1) \<and> ctx w1 = (Some e, w2)"
  then have "ListAllFiles_loop c ctx '''' [] w = ListAllFiles_loop c ctx t ([] @ fileItems pages) w1"
    by (intro ListAllFiles_loop_pages) simp
  also have "\<dots> = Some (([] @ fileItems pages, Some e), w2)"
    using h by (intro ListAllFiles_loop_cancelled) simp
  finally show "Client_ListAllFiles c ctx w = Some ((fileItems pages, Some e), w2)"
    by (simp add: Client_ListAllFiles_def)
next
  assume h: "permPages c ctx fileID '''' w ppages = Some (t, w1) \<and> ctx w1 = (Some e, w2)"
  then have "GetFilePermissions_loop c ctx fileID '''' [] w
             = GetFilePermissions_loop c ctx fileID t ([] @ permItems ppages) w1"
    by (intro GetFilePermissions_loop_pages) simp
  also have "\<dots> = Some (([] @ permItems ppages, Some e), w2)"
    using h by (intro GetFilePermissions_loop_cancelled) simp
  finally show "Client_GetFilePermissions c ctx fileID w = Some ((permItems ppages, Some e), w2)"
    by (simp add: Client_GetFilePermissions_def)
next
  let ?init = "\<lparr>TotalFiles = length (seen @ nxt # rest), TotalExternalShares = 0,
             FilesProcessed = 0, Errors = [], FileRecords = [], ExternalShares = []\<rparr>"
  assume h: "ListAllFiles (driveClient a) ctx w = Some ((seen @ nxt # rest, None), w0)
      \<and> AuditExternalSharing_loop a ctx seen ?init w0 = Some ((result, None), w1)
      \<and> ctx w1 = (Some e, w2)"
  then have "AuditExternalSharing_loop a ctx (seen @ nxt # rest) ?init w0
        = AuditExternalSharing_loop a ctx (nxt # rest) result w1"
    by (intro AuditExternalSharing_loop_append) simp
  also have "\<dots> = Some ((result, Some e), w2)" using h by simp
  finally show "AuditExternalSharing a ctx w = Some ((Some result, Some e), w2)"
    using h by (simp add: AuditExternalSharing_def)
qed

lemma example_driveClient [simp]:
  "driveClient exampleAuditor = Client_DriveClient exampleClient"
  "ListAllFiles (Client_DriveClient c) = Client_ListAllFiles c"
  "GetFilePermissions (Client_DriveClient c) = Client_GetFilePermissions c"
  "IsExternalShare (Client_DriveClient c) = Client_IsExternalShare c"
  by (simp_all add: exampleAuditor_def NewAuditorWithClient_def Client_DriveClient_def)

lemma example_audit:
  "ListAllFiles (driveClient exampleAuditor) background 0
      = Some (([toFileInfo fileA, toFileInfo fileB, toFileInfo fileC], None), 2)"
  "AuditExternalSharing exampleAuditor background 0
     = Some ((Some \<lparr>TotalFiles = 3, TotalExternalShares = 3, FilesProcessed = 2,
               Errors = [Errorf ''file b: ''
                          (Errorf ''failed to list permissions for file b: ''
                             (ErrorNew ''forbidden''))],
               FileRecords = [],
               ExternalShares =
                 [permissionToRecord (toFileInfo fileA) (toPermission permAnyone),
                  permissionToRecord (toFileInfo fileA) (toPermission permOutside),
                  permissionToRecord (toFileInfo fileC) (toPermission permPartner)]\<rparr>,
              None), 9)"
  by code_simp+

theorem cancellation_returns_partial_results_witness:
  "Client_ListAllFiles exampleClient (cancelledFrom 1) 0
     = Some ((map toFileInfo [fileA, fileB], Some Canceled), 2)
   \<and> Client_GetFilePermissions exampleClient (cancelledFrom 1) ''a'' 0
     = Some ((map toPermission [permAnyone], Some Canceled), 2)
   \<and> AuditExternalSharing exampleAuditor (cancelledFrom 5) 0
     = Some ((Some \<lparr>TotalFiles = 3, TotalExternalShares = 0, FilesProcessed = 1, Errors = [],
                     FileRecords = [],
                     ExternalShares =
                       [permissionToRecord (toFileInfo fileA) (toPermission permAnyone),
                        permissionToRecord (toFileInfo fileA) (toPermission permOutside)]\<rparr>,
              Some Canceled), 6)"
proof -
  have items: "fileItems [filesPage1] = map toFileInfo [fileA, fileB]"
    "permItems [permsPage1] = map toPermission [permAnyone]"
    by (simp_all add: fileItems_def permItems_def filesPage1_def permsPage1_def)
  have listed: "ListAllFiles (driveClient exampleAuditor) (cancelledFrom 5) 0
      = Some (([toFileInfo fileA] @ toFileInfo fileB # [toFileInfo fileC], None), 2)"
    by code_simp
  have looped: "AuditExternalSharing_loop exampleAuditor (cancelledFrom 5) [toFileInfo fileA]
        \<lparr>TotalFiles = length ([toFileInfo fileA] @ toFileInfo fileB # [toFileInfo fileC]),
         TotalExternalShares = 0, FilesProcessed = 0, Errors = [], FileRecords = [],
         ExternalShares = []\<rparr> 2
      = Some ((\<lparr>TotalFiles = 3, TotalExternalShares = 0, FilesProcessed = 1, Errors = [],
                FileRecords = [],
                ExternalShares =
                  [permissionToRecord (toFileInfo fileA) (toPermission permAnyone),
                   permissionToRecord (toFileInfo fileA) (toPermission permOutside)]\<rparr>,
               None), 5)"
    by code_simp
  show ?thesis
    using
      cancellation_returns_partial_results[where c = exampleClient and ctx = "cancelledFrom 1"
        and w = 0 and pages = "[filesPage1]" and t = "''t1''" and ?w1.0 = 1 and ?w2.0 = 2
        and e = Canceled]
      cancellation_returns_partial_results[where c = exampleClient and ctx = "cancelledFrom 1"
        and w = 0 and fileID = "''a''" and ppages = "[permsPage1]" and t = "''q1''"
        and ?w1.0 = 1 and ?w2.0 = 2 and e = Canceled]
      cancellation_returns_partial_results[where a = exampleAuditor and ctx = "cancelledFrom 5"
        and w = 0 and seen = "[toFileInfo fileA]" and nxt = "toFileInfo fileB"
        and rest = "[toFileInfo fileC]" and ?w0.0 = 2 and ?w1.0 = 5 and ?w2.0 = 6
        and e = Canceled
        and result = "\<lparr>TotalFiles = 3, TotalExternalShares = 0, FilesProcessed = 1, Errors = [],
                FileRecords = [],
                ExternalShares =
                  [permissionToRecord (toFileInfo fileA) (toPermission permAnyone),
                   permissionToRecord (toFileInfo fileA) (toPermission permOutside)]\<rparr>"]
      listed looped
    by (simp add: cancelledFrom_def items)
qed

subsection \<open>The external-sharing audit\<close>

text \<open>
  C4. When the permission fetch of a file fails with \<open>err\<close>, after the files \<open>seen\<close>
  have been processed into \<open>result\<close>, the loop goes on with the files after it from the
  same \<open>result\<close> with one error appended and nothing else changed: \<open>FilesProcessed\<close> and
  \<open>ExternalShares\<close> are as before. The appended error names the file identifier in its
  message and wraps \<open>err\<close>. Over a whole run that is not cancelled, whatever fetches
  fail, the audit returns a result and no error; the error list holds one error for
  each failing file, in order, \<open>FilesProcessed\<close> counts the other files, and only they
  contribute records.
\<close>

theorem permission_fetch_failure_recorded_and_skipped:
  "(AuditExternalSharing_loop a ctx seen result0 w = Some ((result, None), w1)
      \<and> ctx w1 = (None, w2)
      \<and> GetFilePermissions (driveClient a) ctx (FileInfo.ID failing) w2
          = Some ((perms, Some err), w3) \<longrightarrow>
    AuditExternalSharing_loop a ctx (seen @ failing # rest) result0 w
      = AuditExternalSharing_loop a ctx rest
          (result\<lparr>Errors := Errors result
             @ [Errorf (''file '' @ FileInfo.ID failing @ '': '') err]\<rparr>) w3) \<and>
   Error (Errorf (''file '' @ FileInfo.ID failing @ '': '') err)
      = ''file '' @ FileInfo.ID failing @ '': '' @ Error err \<and>
   Unwrap (Errorf (''file '' @ FileInfo.ID failing @ '': '') err) = Some err \<and>
   (ListAllFiles (driveClient a) ctx w = Some ((files, None), w0)
      \<and> permFetches a ctx files w0 = Some (fetches, w') \<longrightarrow>
    (\<exists>final. AuditExternalSharing a ctx w = Some ((Some final, None), w')
       \<and> Errors final
           = concat (map (\<lambda>(file, perms, err). case err of
                 None \<Rightarrow> []
               | Some e \<Rightarrow> [Errorf (''file '' @ FileInfo.ID file @ '': '') e]) fetches)
       \<and> FilesProcessed final = length (filter (\<lambda>(file, perms, err). err = None) fetches)
       \<and> ExternalShares final
           = concat (map (\<lambda>(file, perms, err). case err of
                 None \<Rightarrow> map (permissionToRecord file)
                           (filter (IsExternalShare (driveClient a)) perms)
               | Some e \<Rightarrow> []) fetches)))"
proof (intro conjI impI)
  assume h: "AuditExternalSharing_loop a ctx seen result0 w = Some ((result, None), w1)
      \<and> ctx w1 = (None, w2)
      \<and> GetFilePermissions (driveClient a) ctx (FileInfo.ID failing) w2
          = Some ((perms, Some err), w3)"
  then have "AuditExternalSharing_loop a ctx (seen @ failing # rest) result0 w
      = AuditExternalSharing_loop a ctx (failing # rest) result w1"
    by (intro AuditExternalSharing_loop_append) simp
  also have "\<dots> = AuditExternalSharing_loop a ctx rest
          (result\<lparr>Errors := Errors result
             @ [Errorf (''file '' @ FileInfo.ID failing @ '': '') err]\<rparr>) w3"
    using h by (intro AuditExternalSharing_loop_failed) auto
  finally show "AuditExternalSharing_loop a ctx (seen @ failing # rest) result0 w
      = AuditExternalSharing_loop a ctx rest
          (result\<lparr>Errors := Errors result
             @ [Errorf (''file '' @ FileInfo.ID failing @ '': '') err]\<rparr>) w3" .
next
  show "Error (Errorf (''file '' @ FileInfo.ID failing @ '': '') err)
      = ''file '' @ FileInfo.ID failing @ '': '' @ Error err" by simp
next
  show "Unwrap (Errorf (''file '' @ FileInfo.ID failing @ '': '') err) = Some err" by simp
next
  assume h: "ListAllFiles (driveClient a) ctx w = Some ((files, None), w0)
      \<and> permFetches a ctx files w0 = Some (fetches, w')"
  then have fetched: "permFetches a ctx files w0 = Some (fetches, w')" by simp
  show "\<exists>final. AuditExternalSharing a ctx w = Some ((Some final, None), w')
       \<and> Errors final
           = concat (map (\<lambda>(file, perms, err). case err of
                 None \<Rightarrow> []
               | Some e \<Rightarrow> [Errorf (''file '' @ FileInfo.ID file @ '': '') e]) fetches)
       \<and> FilesProcessed final = length (filter (\<lambda>(file, perms, err). err = None) fetches)
       \<and> ExternalShares final
           = concat (map (\<lambda>(file, perms, err). case err of
                 None \<Rightarrow> map (permissionToRecord file)
                           (filter (IsExternalShare (driveClient a)) perms)
               | Some e \<Rightarrow> []) fetches)"
    using h by (simp add: AuditExternalSharing_def AuditExternalSharing_loop_fetches[OF fetched])
qed

theorem permission_fetch_failure_recorded_and_skipped_witness:
  "AuditExternalSharing_loop exampleAuditor background
       [toFileInfo fileA, toFileInfo fileB, toFileInfo fileC]
       \<lparr>TotalFiles = 3, TotalExternalShares = 0, FilesProcessed = 0, Errors = [],
        FileRecords = [], ExternalShares = []\<rparr> 2
     = Some ((\<lparr>TotalFiles = 3, TotalExternalShares = 0, FilesProcessed = 2,
               Errors = [Errorf ''file b: ''
                          (Errorf ''failed to list permissions for file b: ''
                             (ErrorNew ''forbidden''))],
               FileRecords = [],
               ExternalShares =
                 [permissionToRecord (toFileInfo fileA) (toPermission permAnyone),
                  permissionToRecord (toFileInfo fileA) (toPermission permOutside),
                  permissionToRecord (toFileInfo fileC) (toPermission permPartner)]\<rparr>,
              None), 9)
   \<and> (\<exists>final. AuditExternalSharing exampleAuditor background 0 = Some ((Some final, None), 9)
        \<and> Errors final = [Errorf ''file b: ''
                            (Errorf ''failed to list permissions for file b: ''
                               (ErrorNew ''forbidden''))]
        \<and> FilesProcessed final = 2
        \<and> ExternalShares final =
            [permissionToRecord (toFileInfo fileA) (toPermission permAnyone),
             permissionToRecord (toFileInfo fileA) (toPermission permOutside),
             permissionToRecord (toFileInfo fileC) (toPermission permPartner)])"
proof -
  let ?errB = "Errorf ''failed to list permissions for file b: '' (ErrorNew ''forbidden'')"
  let ?afterA = "\<lparr>TotalFiles = 3, TotalExternalShares = 0, FilesProcessed = 1, Errors = [],
        FileRecords = [],
        ExternalShares =
          [permissionToRecord (toFileInfo fileA) (toPermission permAnyone),
           permissionToRecord (toFileInfo fileA) (toPermission permOutside)]\<rparr>"
  have seenA: "AuditExternalSharing_loop exampleAuditor background [toFileInfo fileA]
       \<lparr>TotalFiles = 3, TotalExternalShares = 0, FilesProcessed = 0, Errors = [],
        FileRecords = [], ExternalShares = []\<rparr> 2 = Some ((?afterA, None), 5)"
    by code_simp
  have fetchB: "GetFilePermissions (driveClient exampleAuditor) background
        (FileInfo.ID (toFileInfo fileB)) 6 = Some (([], Some ?errB), 7)"
    by code_simp
  have restC: "AuditExternalSharing_loop exampleAuditor background [toFileInfo fileC]
       (?afterA\<lparr>Errors := Errors ?afterA
           @ [Errorf (''file '' @ FileInfo.ID (toFileInfo fileB) @ '': '') ?errB]\<rparr>) 7
     = Some ((\<lparr>TotalFiles = 3, TotalExternalShares = 0, FilesProcessed = 2,
               Errors = [Errorf ''file b: '' ?errB],
               FileRecords = [],
               ExternalShares =
                 [permissionToRecord (toFileInfo fileA) (toPermission permAnyone),
                  permissionToRecord (toFileInfo fileA) (toPermission permOutside),
                  permissionToRecord (toFileInfo fileC) (toPermission permPartner)]\<rparr>,
              None), 9)"
    by code_simp
  have lookB: "background 5 = (None, 6)" by (simp add: background_def)
  have listed: "ListAllFiles (driveClient exampleAuditor) background 0
      = Some (([toFileInfo fileA, toFileInfo fileB, toFileInfo fileC], None), 2)"
    by code_simp
  have fetched: "permFetches exampleAuditor background
        [toFileInfo fileA, toFileInfo fileB, toFileInfo fileC] 2
      = Some ([(toFileInfo fileA, map toPermission [permAnyone, permOutside, permInside], None),
               (toFileInfo fileB, [], Some ?errB),
               (toFileInfo fileC, map toPermission [permPartner], None)], 9)"
    by code_simp
  have ext: "Client_IsExternalShare exampleClient (toPermission permAnyone)"
    "Client_IsExternalShare exampleClient (toPermission permOutside)"
    "\<not> Client_IsExternalShare exampleClient (toPermission permInside)"
    "Client_IsExternalShare exampleClient (toPermission permPartner)"
    by code_simp+
  have idB: "FileInfo.ID (toFileInfo fileB) = ''b''"
    by (simp add: toFileInfo_def fileB_def)
  note T = permission_fetch_failure_recorded_and_skipped
  have "AuditExternalSharing_loop exampleAuditor background
          ([toFileInfo fileA] @ toFileInfo fileB # [toFileInfo fileC])
          \<lparr>TotalFiles = 3, TotalExternalShares = 0, FilesProcessed = 0, Errors = [],
           FileRecords = [], ExternalShares = []\<rparr> 2
        = AuditExternalSharing_loop exampleAuditor background [toFileInfo fileC]
            (?afterA\<lparr>Errors := Errors ?afterA
               @ [Errorf (''file '' @ FileInfo.ID (toFileInfo fileB) @ '': '') ?errB]\<rparr>) 7"
    by (rule T[THEN conjunct1, THEN mp, OF conjI[OF seenA conjI[OF lookB fetchB]]])
  with restC have part1: "AuditExternalSharing_loop exampleAuditor background
          ([toFileInfo fileA] @ toFileInfo fileB # [toFileInfo fileC])
          \<lparr>TotalFiles = 3, TotalExternalShares = 0, FilesProcessed = 0, Errors = [],
           FileRecords = [], ExternalShares = []\<rparr> 2
     = Some ((\<lparr>TotalFiles = 3, TotalExternalShares = 0, FilesProcessed = 2,
               Errors = [Errorf ''file b: '' ?errB],
               FileRecords = [],
               ExternalShares =
                 [permissionToRecord (toFileInfo fileA) (toPermission permAnyone),
                  permissionToRecord (toFileInfo fileA) (toPermission permOutside),
                  permissionToRecord (toFileInfo fileC) (toPermission permPartner)]\<rparr>,
              None), 9)"
    by (simp only:)
  have lists: "[toFileInfo fileA] @ toFileInfo fileB # [toFileInfo fileC]
      = [toFileInfo fileA, toFileInfo fileB, toFileInfo fileC]" by simp
  from T[THEN conjunct2, THEN conjunct2, THEN conjunct2, THEN mp, OF conjI[OF listed fetched]]
  obtain final where
    "AuditExternalSharing exampleAuditor background 0 = Some ((Some final, None), 9)"
    "Errors final = [Errorf ''file b: '' ?errB]"
    "FilesProcessed final = 2"
    "ExternalShares final =
            [permissionToRecord (toFileInfo fileA) (toPermission permAnyone),
             permissionToRecord (toFileInfo fileA) (toPermission permOutside),
             permissionToRecord (toFileInfo fileC) (toPermission permPartner)]"
    by (auto simp: ext idB)
  with part1[unfolded lists] show ?thesis by blast
qed

text \<open>
  C6. Whenever the audit returns a result, with or without a cancellation error, every
  record in its \<open>ExternalShares\<close> has the file identifier, file name and owner email of
  one of the files the listing of that run returned.
\<close>

theorem external_shares_refer_to_listed_files:
  "ListAllFiles (driveClient a) ctx w = Some ((files, lerr), w0)
     \<and> AuditExternalSharing a ctx w = Some ((Some result, err), w')
     \<and> r \<in> set (ExternalShares result) \<longrightarrow>
   (\<exists>f \<in> set files. ExternalShareRecord.FileID r = FileInfo.ID f
       \<and> ExternalShareRecord.FileName r = FileInfo.Name f
       \<and> ExternalShareRecord.OwnerEmail r = FileInfo.OwnerEmail f)"
proof
  let ?init = "\<lparr>TotalFiles = length files, TotalExternalShares = 0,
             FilesProcessed = 0, Errors = [], FileRecords = [], ExternalShares = []\<rparr>"
  assume h: "ListAllFiles (driveClient a) ctx w = Some ((files, lerr), w0)
     \<and> AuditExternalSharing a ctx w = Some ((Some result, err), w')
     \<and> r \<in> set (ExternalShares result)"
  then obtain looped lerr' where
    loop: "AuditExternalSharing_loop a ctx files ?init w0 = Some ((looped, lerr'), w')"
    and shares: "ExternalShares result = ExternalShares looped"
    by (auto simp: AuditExternalSharing_def split: option.splits prod.splits)
  from h shares have "r \<in> set (ExternalShares looped)" by simp
  from AuditExternalSharing_loop_refs[OF loop this]
  show "\<exists>f \<in> set files. ExternalShareRecord.FileID r = FileInfo.ID f
       \<and> ExternalShareRecord.FileName r = FileInfo.Name f
       \<and> ExternalShareRecord.OwnerEmail r = FileInfo.OwnerEmail f" by simp
qed

theorem external_shares_refer_to_listed_files_witness:
  "\<exists>f \<in> set [toFileInfo fileA, toFileInfo fileB, toFileInfo fileC].
      ExternalShareRecord.FileID
          (permissionToRecord (toFileInfo fileC) (toPermission permPartner)) = FileInfo.ID f
      \<and> ExternalShareRecord.FileName
          (permissionToRecord (toFileInfo fileC) (toPermission permPartner)) = FileInfo.Name f
      \<and> ExternalShareRecord.OwnerEmail
          (permissionToRecord (toFileInfo fileC) (toPermission permPartner))
          = FileInfo.OwnerEmail f"
proof -
  have "permissionToRecord (toFileInfo fileC) (toPermission permPartner)
        \<in> set (ExternalShares \<lparr>TotalFiles = 3, TotalExternalShares = 3, FilesProcessed = 2,
               Errors = [Errorf ''file b: ''
                          (Errorf ''failed to list permissions for file b: ''
                             (ErrorNew ''forbidden''))],
               FileRecords = [],
               ExternalShares =
                 [permissionToRecord (toFileInfo fileA) (toPermission permAnyone),
                  permissionToRecord (toFileInfo fileA) (toPermission permOutside),
                  permissionToRecord (toFileInfo fileC) (toPermission permPartner)]\<rparr>)"
    by simp
  from external_shares_refer_to_listed_files[THEN mp,
      OF conjI[OF example_audit(1) conjI[OF example_audit(2) this]]]
  show ?thesis .
qed

text \<open>
  C10. Whenever the audit returns without error, it returns a result; the listing
  returned some files without error; \<open>TotalFiles\<close> is their number,
  \<open>TotalExternalShares\<close> is the length of \<open>ExternalShares\<close>, and \<open>FilesProcessed\<close> plus
  the length of \<open>Errors\<close> is \<open>TotalFiles\<close>.
\<close>

theorem audit_counts_consistent:
  "AuditExternalSharing a ctx w = Some ((res, None), w') \<longrightarrow>
   (\<exists>result files w0. res = Some result
      \<and> ListAllFiles (driveClient a) ctx w = Some ((files, None), w0)
      \<and> TotalFiles result = length files
      \<and> TotalExternalShares result = length (ExternalShares result)
      \<and> FilesProcessed result + length (Errors result) = TotalFiles result)"
proof
  assume h: "AuditExternalSharing a ctx w = Some ((res, None), w')"
  then obtain files w0 looped where
    listed: "ListAllFiles (driveClient a) ctx w = Some ((files, None), w0)" and
    loop: "AuditExternalSharing_loop a ctx files
             \<lparr>TotalFiles = length files, TotalExternalShares = 0, FilesProcessed = 0,
              Errors = [], FileRecords = [], ExternalShares = []\<rparr> w0
           = Some ((looped, None), w')" and
    res: "res = Some (looped\<lparr>TotalExternalShares := length (ExternalShares looped)\<rparr>)"
    by (auto simp: AuditExternalSharing_def split: option.splits prod.splits)
  from AuditExternalSharing_loop_counts[OF loop]
  have "FilesProcessed looped + length (Errors looped) = length files"
    and "TotalFiles looped = length files" by simp_all
  with listed res show "\<exists>result files w0. res = Some result
      \<and> ListAllFiles (driveClient a) ctx w = Some ((files, None), w0)
      \<and> TotalFiles result = length files
      \<and> TotalExternalShares result = length (ExternalShares result)
      \<and> FilesProcessed result + length (Errors result) = TotalFiles result"
    by simp
qed

theorem audit_counts_consistent_witness:
  "\<exists>result files w0.
      AuditExternalSharing exampleAuditor background 0 = Some ((Some result, None), 9)
      \<and> ListAllFiles (driveClient exampleAuditor) background 0 = Some ((files, None), w0)
      \<and> TotalFiles result = 3 \<and> length files = 3
      \<and> TotalExternalShares result = 3 \<and> length (ExternalShares result) = 3
      \<and> FilesProcessed result = 2 \<and> length (Errors result) = 1
      \<and> FilesProcessed result + length (Errors result) = TotalFiles result"
  using audit_counts_consistent[THEN mp, OF example_audit(2)]
  by (simp add: example_audit)

text \<open>
  C9. The shared-with domain of the record made of a permission is the permission's
  domain when that is not empty; otherwise, when the email is not empty, the domain
  extracted from the email, which is what follows its last \<open>@\<close>; and the empty string
  when both are empty. The audit appends exactly these records, one for each permission
  of the file classified as external, in order.
\<close>

theorem permissionToRecord_SharedWithDomain:
  "(Permission.Domain perm \<noteq> '''' \<longrightarrow>
      SharedWithDomain (permissionToRecord file perm) = Permission.Domain perm) \<and>
   (Permission.Domain perm = '''' \<and> Permission.EmailAddress perm \<noteq> '''' \<longrightarrow>
      SharedWithDomain (permissionToRecord file perm)
        = ExtractDomain (Permission.EmailAddress perm)) \<and>
   (Permission.Domain perm = '''' \<and> Permission.EmailAddress perm = local @ ''@'' @ d
      \<and> CHR ''@'' \<notin> set d \<longrightarrow>
      SharedWithDomain (permissionToRecord file perm) = d) \<and>
   (Permission.Domain perm = '''' \<and> Permission.EmailAddress perm = '''' \<longrightarrow>
      SharedWithDomain (permissionToRecord file perm) = '''') \<and>
   ExternalShares (auditPerms a file perms result)
     = ExternalShares result
       @ map (permissionToRecord file) (filter (IsExternalShare (driveClient a)) perms)"
proof -
  have "Permission.EmailAddress perm = local @ ''@'' @ d \<Longrightarrow> CHR ''@'' \<notin> set d \<Longrightarrow>
        ExtractDomain (Permission.EmailAddress perm) = d"
    using ExtractDomain_last_at[of d local] by simp
  then show ?thesis
    by (auto simp: permissionToRecord_def Let_def auditPerms_eq)
qed

theorem permissionToRecord_SharedWithDomain_witness:
  "SharedWithDomain (permissionToRecord (toFileInfo fileC) (toPermission permPartner))
     = ''partner.org''
   \<and> SharedWithDomain (permissionToRecord (toFileInfo fileA) (toPermission permOutside))
     = ''other.com''
   \<and> SharedWithDomain (permissionToRecord (toFileInfo fileA) (toPermission permAnyone)) = ''''
   \<and> SharedWithDomain (permissionToRecord (toFileInfo fileA)
        \<lparr>Permission.ID = ''5'', Type = ''user'', Role = ''reader'',
         EmailAddress = ''x@other.com'', Domain = ''partner.org'', DisplayName = ''''\<rparr>)
     = ''partner.org''
   \<and> ExternalShares (auditPerms exampleAuditor (toFileInfo fileA)
         (map toPermission [permAnyone, permOutside, permInside])
         \<lparr>TotalFiles = 3, TotalExternalShares = 0, FilesProcessed = 1, Errors = [],
          FileRecords = [], ExternalShares = []\<rparr>)
     = [permissionToRecord (toFileInfo fileA) (toPermission permAnyone),
        permissionToRecord (toFileInfo fileA) (toPermission permOutside)]"
proof -
  let ?both = "\<lparr>Permission.ID = ''5'', Type = ''user'', Role = ''reader'',
         EmailAddress = ''x@other.com'', Domain = ''partner.org'', DisplayName = ''''\<rparr>"
  have ext: "filter (IsExternalShare (driveClient exampleAuditor))
               (map toPermission [permAnyone, permOutside, permInside])
             = map toPermission [permAnyone, permOutside]"
    by code_simp
  have fields:
    "Permission.Domain (toPermission permPartner) = ''partner.org''"
    "Permission.Domain (toPermission permOutside) = ''''"
    "Permission.EmailAddress (toPermission permOutside) = ''x'' @ ''@'' @ ''other.com''"
    "Permission.Domain (toPermission permAnyone) = ''''"
    "Permission.EmailAddress (toPermission permAnyone) = ''''"
    by (simp_all add: toPermission_def permPartner_def permOutside_def permAnyone_def)
  note T = permissionToRecord_SharedWithDomain
  have c1: "SharedWithDomain (permissionToRecord (toFileInfo fileC) (toPermission permPartner))
     = ''partner.org''"
    using T[THEN conjunct1, of "toPermission permPartner" "toFileInfo fileC"] fields by simp
  have c2: "SharedWithDomain (permissionToRecord (toFileInfo fileA) (toPermission permOutside))
     = ''other.com''"
    using T[THEN conjunct2, THEN conjunct2, THEN conjunct1,
        of "toPermission permOutside" "''x''" "''other.com''" "toFileInfo fileA"] fields
    by simp
  have c3: "SharedWithDomain (permissionToRecord (toFileInfo fileA) (toPermission permAnyone))
     = ''''"
    using T[THEN conjunct2, THEN conjunct2, THEN conjunct2, THEN conjunct1,
        of "toPermission permAnyone" "toFileInfo fileA"] fields by simp
  have c4: "SharedWithDomain (permissionToRecord (toFileInfo fileA) ?both) = ''partner.org''"
    using T[THEN conjunct1, of ?both "toFileInfo fileA"] by simp
  have c5: "ExternalShares (auditPerms exampleAuditor (toFileInfo fileA)
         (map toPermission [permAnyone, permOutside, permInside])
         \<lparr>TotalFiles = 3, TotalExternalShares = 0, FilesProcessed = 1, Errors = [],
          FileRecords = [], ExternalShares = []\<rparr>)
     = [permissionToRecord (toFileInfo fileA) (toPermission permAnyone),
        permissionToRecord (toFileInfo fileA) (toPermission permOutside)]"
    unfolding T[THEN conjunct2, THEN conjunct2, THEN conjunct2, THEN conjunct2] ext by simp
  from c1 c2 c3 c4 c5 show ?thesis by blast
qed

subsection \<open>The report sink\<close>

lemma transp_row_le: "transp row_le"
  by (auto simp: transp_def row_le_def)

lemma row_FileRecord_keys:
  "row_FileRecord env rec ! 0 = FileRecord.OwnerEmail rec"
  "row_FileRecord env rec ! 2 = FileRecord.FileName rec"
  by (simp_all add: row_FileRecord_def Let_def)

lemma row_ExternalShareRecord_keys:
  "row_ExternalShareRecord env rec ! 0 = ExternalShareRecord.OwnerEmail rec"
  "row_ExternalShareRecord env rec ! 2 = ExternalShareRecord.FileName rec"
  by (simp_all add: row_ExternalShareRecord_def Let_def)

lemma not_less_FileRecord_row_le:
  "\<not> less_FileRecord y x \<Longrightarrow> row_le (row_FileRecord env x) (row_FileRecord env y)"
  by (auto simp: less_FileRecord_def row_le_def row_FileRecord_keys split: if_splits)

lemma not_less_ExternalShareRecord_row_le:
  "\<not> less_ExternalShareRecord y x \<Longrightarrow>
   row_le (row_ExternalShareRecord env x) (row_ExternalShareRecord env y)"
  by (auto simp: less_ExternalShareRecord_def row_le_def row_ExternalShareRecord_keys
      split: if_splits)

lemma rows_sorted:
  assumes "successively (\<lambda>x y. \<not> lt y x) xs"
    and "\<And>x y. \<not> lt y x \<Longrightarrow> row_le (row x) (row y)"
  shows "sorted_wrt row_le (map row xs)"
proof -
  from assms have "successively (\<lambda>x y. row_le (row x) (row y)) xs"
    by (auto elim: successively_mono)
  then have "successively row_le (map row xs)" by (simp add: successively_map)
  then show ?thesis by (simp add: successively_conv_sorted_wrt[OF transp_row_le])
qed

lemma writeRecords_rows:
  "writeRecords env row recs rows = (err, out) \<Longrightarrow>
   \<exists>k. out = rows @ map row (take k recs) \<and> (err = None \<longrightarrow> out = rows @ map row recs)"
proof (induction recs arbitrary: rows)
  case Nil
  then show ?case by auto
next
  case (Cons rec recs)
  show ?case
  proof (cases "writer_Write env rows (row rec)")
    case None
    with Cons.prems have "writeRecords env row recs (rows @ [row rec]) = (err, out)" by simp
    from Cons.IH[OF this] obtain k where
      "out = (rows @ [row rec]) @ map row (take k recs)"
      "err = None \<longrightarrow> out = (rows @ [row rec]) @ map row recs" by blast
    then have "out = rows @ map row (take (Suc k) (rec # recs))"
      "err = None \<longrightarrow> out = rows @ map row (rec # recs)" by simp_all
    then show ?thesis by blast
  next
    case (Some e)
    with Cons.prems have "out = rows @ map row (take 0 (rec # recs))" "err \<noteq> None" by auto
    then show ?thesis by blast
  qed
qed

lemma report_rows:
  assumes "deferClose env (writeReport env header row records) = (err, rows)"
  shows "(rows = [] \<or> hd rows = header) \<and> (\<exists>k. tl rows = map row (take k records))
         \<and> (err = None \<longrightarrow> rows \<noteq> [] \<and> tl rows = map row records)"
proof -
  obtain err0 rows0 where w: "writeReport env header row records = (err0, rows0)"
    by (cases "writeReport env header row records")
  with assms have same: "rows = rows0" and errs: "err = None \<longrightarrow> err0 = None"
    by (auto simp: deferClose_def split: option.splits if_splits)
  show ?thesis
  proof (cases "writer_Write env [] header")
    case (Some e)
    with w have "rows0 = []" "err0 \<noteq> None" by (auto simp: writeReport_def)
    with same errs show ?thesis by (auto intro: exI[of _ 0])
  next
    case None
    obtain err1 rows1 where r: "writeRecords env row records [header] = (err1, rows1)"
      by (cases "writeRecords env row records [header]")
    from writeRecords_rows[OF r] obtain k where
      k: "rows1 = [header] @ map row (take k records)"
      and full: "err1 = None \<longrightarrow> rows1 = [header] @ map row records" by blast
    from w None r have "rows0 = rows1" "err0 = None \<longrightarrow> err1 = None"
      by (auto simp: writeReport_def split: option.splits)
    with same errs k full show ?thesis by auto
  qed
qed

text \<open>
  C7. Given that \<open>sort.Slice\<close> leaves the records sorted for the closure it was given
  (no element is less than its predecessor) and permuted, the rows the reporter writes,
  for file records and for external-share records in any order, are the fixed header
  row followed by rows sorted by owner email ascending, ties by file name ascending, in
  the byte-wise order of strings. This holds of the rows written when a write fails
  midway too; when the reporter returns no error, the rows after the header are the rows
  of all the records.
\<close>

theorem report_rows_sorted_after_header:
  "(successively (\<lambda>x y. \<not> less_FileRecord y x) (sort_Slice env less_FileRecord records)
      \<and> mset (sort_Slice env less_FileRecord records) = mset records
      \<and> WriteFilesByOwner env r records = (err, rows) \<longrightarrow>
    (rows = [] \<or> hd rows = header_FilesByOwner) \<and> sorted_wrt row_le (tl rows)
      \<and> (err = None \<longrightarrow>
           rows \<noteq> [] \<and> mset (tl rows) = image_mset (row_FileRecord env) (mset records))) \<and>
   (successively (\<lambda>x y. \<not> less_ExternalShareRecord y x)
        (sort_Slice env' less_ExternalShareRecord shares)
      \<and> mset (sort_Slice env' less_ExternalShareRecord shares) = mset shares
      \<and> WriteExternalSharing env' r shares = (err', rows') \<longrightarrow>
    (rows' = [] \<or> hd rows' = header_ExternalSharing) \<and> sorted_wrt row_le (tl rows')
      \<and> (err' = None \<longrightarrow>
           rows' \<noteq> []
           \<and> mset (tl rows') = image_mset (row_ExternalShareRecord env') (mset shares)))"
proof (rule conjI; rule impI)
  let ?sorted = "sort_Slice env less_FileRecord records"
  assume h: "successively (\<lambda>x y. \<not> less_FileRecord y x) ?sorted
      \<and> mset ?sorted = mset records \<and> WriteFilesByOwner env r records = (err, rows)"
  then have srt: "sorted_wrt row_le (map (row_FileRecord env) ?sorted)"
    by (intro rows_sorted[where lt = less_FileRecord] not_less_FileRecord_row_le) simp_all
  show "(rows = [] \<or> hd rows = header_FilesByOwner) \<and> sorted_wrt row_le (tl rows)
      \<and> (err = None \<longrightarrow>
           rows \<noteq> [] \<and> mset (tl rows) = image_mset (row_FileRecord env) (mset records))"
  proof (cases "os_Create env (outputDir r) ''files_by_owner.csv''")
    case (Some e)
    with h show ?thesis by (auto simp: WriteFilesByOwner_def Let_def)
  next
    case None
    with h have "deferClose env
        (writeReport env header_FilesByOwner (row_FileRecord env) ?sorted) = (err, rows)"
      by (simp add: WriteFilesByOwner_def Let_def)
    from report_rows[OF this] obtain k where
      hd: "rows = [] \<or> hd rows = header_FilesByOwner" and
      k: "tl rows = map (row_FileRecord env) (take k ?sorted)" and
      full: "err = None \<longrightarrow> rows \<noteq> [] \<and> tl rows = map (row_FileRecord env) ?sorted"
      by blast
    from k have "tl rows = take k (map (row_FileRecord env) ?sorted)" by (simp add: take_map)
    with srt have "sorted_wrt row_le (tl rows)" by (simp add: sorted_wrt_take)
    moreover have "err = None \<longrightarrow> mset (tl rows) = image_mset (row_FileRecord env) (mset records)"
    proof
      assume "err = None"
      with full have "mset (tl rows) = image_mset (row_FileRecord env) (mset ?sorted)" by simp
      with h show "mset (tl rows) = image_mset (row_FileRecord env) (mset records)" by simp
    qed
    ultimately show ?thesis using hd full by blast
  qed
next
  let ?sorted = "sort_Slice env' less_ExternalShareRecord shares"
  assume h: "successively (\<lambda>x y. \<not> less_ExternalShareRecord y x) ?sorted
      \<and> mset ?sorted = mset shares \<and> WriteExternalSharing env' r shares = (err', rows')"
  then have srt: "sorted_wrt row_le (map (row_ExternalShareRecord env') ?sorted)"
    by (intro rows_sorted[where lt = less_ExternalShareRecord]
        not_less_ExternalShareRecord_row_le) simp_all
  show "(rows' = [] \<or> hd rows' = header_ExternalSharing) \<and> sorted_wrt row_le (tl rows')
      \<and> (err' = None \<longrightarrow>
           rows' \<noteq> []
           \<and> mset (tl rows') = image_mset (row_ExternalShareRecord env') (mset shares))"
  proof (cases "os_Create env' (outputDir r) ''external_sharing.csv''")
    case (Some e)
    with h show ?thesis by (auto simp: WriteExternalSharing_def Let_def)
  next
    case None
    with h have "deferClose env'
        (writeReport env' header_ExternalSharing (row_ExternalShareRecord env') ?sorted)
        = (err', rows')"
      by (simp add: WriteExternalSharing_def Let_def)
    from report_rows[OF this] obtain k where
      hd: "rows' = [] \<or> hd rows' = header_ExternalSharing" and
      k: "tl rows' = map (row_ExternalShareRecord env') (take k ?sorted)" and
      full: "err' = None \<longrightarrow>
               rows' \<noteq> [] \<and> tl rows' = map (row_ExternalShareRecord env') ?sorted"
      by blast
    from k have "tl rows' = take k (map (row_ExternalShareRecord env') ?sorted)"
      by (simp add: take_map)
    with srt have "sorted_wrt row_le (tl rows')" by (simp add: sorted_wrt_take)
    moreover have "err' = None \<longrightarrow>
        mset (tl rows') = image_mset (row_ExternalShareRecord env') (mset shares)"
    proof
      assume "err' = None"
      with full have "mset (tl rows')
          = image_mset (row_ExternalShareRecord env') (mset ?sorted)" by simp
      with h show "mset (tl rows') = image_mset (row_ExternalShareRecord env') (mset shares)"
        by simp
    qed
    ultimately show ?thesis using hd full by blast
  qed
qed

theorem report_rows_sorted_after_header_witness:
  "(\<exists>rows. WriteFilesByOwner reportEnv \<lparr>outputDir = ''./output''\<rparr> fileRecords = (None, rows)
      \<and> hd rows = header_FilesByOwner \<and> sorted_wrt row_le (tl rows)
      \<and> map (\<lambda>row. (row ! 0, row ! 2)) (tl rows)
          = [(''al@x.org'', ''Z.txt''), (''al@x.org'', ''z.txt''), (''bob@x.org'', ''b.txt'')]) \<and>
   (\<exists>rows. WriteExternalSharing reportEnv \<lparr>outputDir = ''./output''\<rparr> shareRecords = (None, rows)
      \<and> hd rows = header_ExternalSharing \<and> sorted_wrt row_le (tl rows)
      \<and> map (\<lambda>row. (row ! 0, row ! 2)) (tl rows)
          = [(''al@x.org'', ''Z.txt''), (''al@x.org'', ''z.txt''), (''bob@x.org'', ''b.txt'')])"
proof -
  let ?r = "\<lparr>outputDir = ''./output''\<rparr>"
  let ?frows = "[header_FilesByOwner,
     [''al@x.org'', ''3'', ''Z.txt'', ''text/plain'', [], [], ''1024''],
     [''al@x.org'', ''2'', ''z.txt'', ''text/plain'', [], [], ''1024''],
     [''bob@x.org'', ''1'', ''b.txt'', ''text/plain'', [], [], ''1024'']]"
  let ?srows = "[header_ExternalSharing,
     [''al@x.org'', ''3'', ''Z.txt'', [], ''y.com'', ''domain'', ''reader'', []],
     [''al@x.org'', ''2'', ''z.txt'', ''x@y.com'', ''y.com'', ''user'', ''writer'', []],
     [''bob@x.org'', ''1'', ''b.txt'', [], [], ''anyone'', ''reader'', []]]"
  have fsorted: "sort_Slice reportEnv less_FileRecord fileRecords = rev fileRecords"
    by code_simp
  have ssorted: "sort_Slice reportEnv less_ExternalShareRecord shareRecords = rev shareRecords"
    by code_simp
  have fsucc: "successively (\<lambda>x y. \<not> less_FileRecord y x)
      (sort_Slice reportEnv less_FileRecord fileRecords)"
    by code_simp
  have ssucc: "successively (\<lambda>x y. \<not> less_ExternalShareRecord y x)
      (sort_Slice reportEnv less_ExternalShareRecord shareRecords)"
    by code_simp
  have frun: "WriteFilesByOwner reportEnv ?r fileRecords = (None, ?frows)"
    by code_simp
  have srun: "WriteExternalSharing reportEnv ?r shareRecords = (None, ?srows)"
    by code_simp
  have fperm: "mset (sort_Slice reportEnv less_FileRecord fileRecords) = mset fileRecords"
    by (simp add: fsorted)
  have sperm: "mset (sort_Slice reportEnv less_ExternalShareRecord shareRecords)
      = mset shareRecords"
    by (simp add: ssorted)
  note T = report_rows_sorted_after_header
  from T[THEN conjunct1, THEN mp, OF conjI[OF fsucc conjI[OF fperm frun]]]
  have f: "hd ?frows = header_FilesByOwner \<and> sorted_wrt row_le (tl ?frows)" by simp
  from T[THEN conjunct2, THEN mp, OF conjI[OF ssucc conjI[OF sperm srun]]]
  have s: "hd ?srows = header_ExternalSharing \<and> sorted_wrt row_le (tl ?srows)" by simp
  have fkeys: "map (\<lambda>row. (row ! 0, row ! 2)) (tl ?frows)
          = [(''al@x.org'', ''Z.txt''), (''al@x.org'', ''z.txt''), (''bob@x.org'', ''b.txt'')]"
    by simp
  have skeys: "map (\<lambda>row. (row ! 0, row ! 2)) (tl ?srows)
          = [(''al@x.org'', ''Z.txt''), (''al@x.org'', ''z.txt''), (''bob@x.org'', ''b.txt'')]"
    by simp
  have "\<exists>rows. WriteFilesByOwner reportEnv ?r fileRecords = (None, rows)
      \<and> hd rows = header_FilesByOwner \<and> sorted_wrt row_le (tl rows)
      \<and> map (\<lambda>row. (row ! 0, row ! 2)) (tl rows)
          = [(''al@x.org'', ''Z.txt''), (''al@x.org'', ''z.txt''), (''bob@x.org'', ''b.txt'')]"
    by (rule exI[of _ ?frows])
      (rule conjI[OF frun conjI[OF f[THEN conjunct1] conjI[OF f[THEN conjunct2] fkeys]]])
  moreover have "\<exists>rows. WriteExternalSharing reportEnv ?r shareRecords = (None, rows)
      \<and> hd rows = header_ExternalSharing \<and> sorted_wrt row_le (tl rows)
      \<and> map (\<lambda>row. (row ! 0, row ! 2)) (tl rows)
          = [(''al@x.org'', ''Z.txt''), (''al@x.org'', ''z.txt''), (''bob@x.org'', ''b.txt'')]"
    by (rule exI[of _ ?srows])
      (rule conjI[OF srun conjI[OF s[THEN conjunct1] conjI[OF s[THEN conjunct2] skeys]]])
  ultimately show ?thesis by (rule conjI)
qed

subsection \<open>Exit status\<close>

lemma main_Success_or_InternalError:
  "main env cmd = (if Execute env cmd = None then Success else InternalError)"
  by (simp add: main_def split: option.splits)

text \<open>
  C3. The exit status signalled for each class of outcome: \<open>main\<close> signals
  \<open>InternalError\<close> (10) for a configuration error, for an authentication error and for a
  remote-API error alike, and \<open>Success\<close> (0) for a run without error. The codes
  \<open>ConfigError\<close> (1), \<open>AuthError\<close> (2) and \<open>APIError\<close> (3), which the package and the
  README give to the first three classes, are not the ones signalled: the classes are
  not told apart by their exit status.
\<close>

theorem main_signals_InternalError_for_every_error:
  "main configFailure AuditFiles = 10 \<and> main authFailure AuditFiles = 10
   \<and> main apiFailure AuditFiles = 10 \<and> main okRun AuditFiles = 0
   \<and> main configFailure AuditSharing = 10 \<and> main authFailure AuditSharing = 10
   \<and> main configFailure AuditAll = 10 \<and> main authFailure AuditAll = 10
   \<and> ConfigError = 1 \<and> AuthError = 2 \<and> APIError = 3 \<and> InternalError = 10 \<and> Success = 0"
  by (simp add: main_def Execute_def runAuditFiles_def runAuditSharing_def runAuditAll_def
      configFailure_def authFailure_def apiFailure_def okRun_def
      ConfigError_def AuthError_def APIError_def InternalError_def Success_def)

end
